theory Spec2Isabelle
  imports
    Main
    "HOL-Library.Word"
    "HOL-Library.Signed_Division"
    "HOL-Library.Char_ord"
    "HOL-Library.List_Lexorder"
    "HOL-Library.Product_Lexorder"
    "HOL-Library.Sublist"
begin

section \<open>The todo repository of tasker (internal/repository/todo.go)\<close>

text \<open>
  The repository functions build SQL text and a map of named arguments and hand both to a
  PostgreSQL pool.  The embedding keeps the two halves apart: the statement text and the
  bound arguments are built as the Go code builds them, and the store is a pure value (three
  tables) on which each statement is interpreted.
\<close>

subsection \<open>Data model\<close>

type_synonym uuid = string
  \<comment> \<open>\<open>uuid.UUID\<close>, an opaque identifier, kept in its canonical text form\<close>

type_synonym time = int
  \<comment> \<open>an instant (\<open>time.Time\<close>, \<open>TIMESTAMPTZ\<close>)\<close>

type_synonym go_int = "64 word"
  \<comment> \<open>Go's \<open>int\<close> on a 64-bit platform: arithmetic wraps around\<close>

text \<open>
  Modelled from the spec: the package \<open>internal/model/todo\<close> (the types \<open>Todo\<close>,
  \<open>PopulatedTodo\<close>, \<open>Metadata\<close>, the payloads and the query) is not among the sources.
  The fields below are the ones the repository code and its tests read and write, with the
  column names of the SQL statements; status and priority range over the values the data
  model of the spec and the API contract enumerate.
\<close>

datatype Status = StatusDraft | StatusActive | StatusCompleted | StatusArchived

datatype Priority = PriorityLow | PriorityMedium | PriorityHigh

record Metadata =
  Tags :: "string list"
  Color :: "string option"

record Todo =
  t_ID :: uuid
  t_UserID :: string
  t_Title :: string
  t_Description :: "string option"
  t_Status :: Status
  t_Priority :: Priority
  t_DueDate :: "time option"
  t_CompletedAt :: "time option"
  t_ParentTodoID :: "uuid option"
  t_CategoryID :: "uuid option"
  t_Metadata :: "Metadata option"
  t_SortOrder :: int
  t_CreatedAt :: time
  t_UpdatedAt :: time

record Category =
  cat_ID :: uuid
  cat_UserID :: string
  cat_Name :: string
  cat_Color :: string

record Comment =
  com_ID :: uuid
  com_UserID :: string
  com_TodoID :: uuid
  com_Content :: string
  com_CreatedAt :: time

record PopulatedTodo =
  p_Todo :: Todo
  p_Category :: "Category option"
  p_Children :: "Todo list"
  p_Comments :: "Comment list"

record CreateTodoPayload =
  c_Title :: string
  c_Description :: "string option"
  c_Priority :: "Priority option"
  c_DueDate :: "time option"
  c_ParentTodoID :: "uuid option"
  c_CategoryID :: "uuid option"
  c_Metadata :: "Metadata option"

record UpdateTodoPayload =
  u_ID :: uuid
  u_Title :: "string option"
  u_Description :: "string option"
  u_Status :: "Status option"
  u_Priority :: "Priority option"
  u_DueDate :: "time option"
  u_ParentTodoID :: "uuid option"
  u_CategoryID :: "uuid option"
  u_Metadata :: "Metadata option"

record GetTodosQuery =
  q_Page :: "go_int option"
  q_Limit :: "go_int option"
  q_Sort :: "string option"
  q_Order :: "string option"
  q_Search :: "string option"
  q_Status :: "Status option"
  q_Priority :: "Priority option"
  q_CategoryID :: "uuid option"
  q_ParentTodoID :: "uuid option"
  q_DueFrom :: "time option"
  q_DueTo :: "time option"
  q_Overdue :: "bool option"
  q_Completed :: "bool option"

record PaginatedResponse =
  r_Data :: "PopulatedTodo list"
  r_Page :: go_int
  r_Limit :: go_int
  r_Total :: go_int
  r_TotalPages :: go_int

subsection \<open>Errors, panics and results\<close>

datatype error =
    ErrNoRows
      \<comment> \<open>\<open>pgx.ErrNoRows\<close>\<close>
  | ErrStore string
      \<comment> \<open>any other error of the pool or the driver (connection, cancelled context,
          constraint violation, rejected statement)\<close>
  | Errorf string error
      \<comment> \<open>\<open>fmt.Errorf(msg + ": %w", err)\<close>: the message and the wrapped cause\<close>
  | BadRequestError string
      \<comment> \<open>\<open>errs.NewBadRequestError(msg, false, nil, nil, nil)\<close>\<close>
  | NotFoundError string "string option"
      \<comment> \<open>\<open>errs.NewNotFoundError(msg, false, code)\<close>\<close>

datatype 'a result =
    Return 'a
  | Fail error
  | Panic string
      \<comment> \<open>a Go run-time panic (nil dereference, integer division by zero)\<close>

text \<open>\<open>errors.Is(err, target)\<close> walks the chain of wrapped causes.\<close>

fun errors_Is :: "error \<Rightarrow> error \<Rightarrow> bool" where
  "errors_Is (Errorf msg cause) target = (Errorf msg cause = target \<or> errors_Is cause target)"
| "errors_Is err target = (err = target)"

subsection \<open>The store\<close>

record db =
  todos :: "Todo list"
  todo_categories :: "Category list"
  todo_comments :: "Comment list"

text \<open>
  What a call takes from outside the tables: the two clocks, the identifier the store
  assigns to a new row, and the errors the pool reports.  A statement the store reports an
  error for has no effect on the tables.
\<close>

record env =
  time_Now :: time
    \<comment> \<open>\<open>time.Now()\<close> of the Go process\<close>
  db_NOW :: time
    \<comment> \<open>\<open>NOW()\<close> of the store\<close>
  db_new_id :: uuid
  count_err :: "error option"
    \<comment> \<open>the error of \<open>QueryRow(...).Scan\<close>\<close>
  query_err :: "error option"
    \<comment> \<open>the error of \<open>Pool.Query\<close> or \<open>Pool.Exec\<close>\<close>
  rows_err :: "error option"
    \<comment> \<open>the error found while collecting the rows\<close>

datatype arg =
    ArgNull
  | ArgStr string
  | ArgStatus Status
  | ArgPriority Priority
  | ArgTime time
  | ArgInt go_int
  | ArgMeta Metadata

type_synonym NamedArgs = "string \<rightharpoonup> arg"

text \<open>A pointer passed as an argument binds NULL when it is nil.\<close>

definition ptr_arg :: "('a \<Rightarrow> arg) \<Rightarrow> 'a option \<Rightarrow> arg" where
  "ptr_arg f p = (case p of None \<Rightarrow> ArgNull | Some v \<Rightarrow> f v)"

text \<open>
  How the store reads a bound argument at a given type; a missing argument, NULL or a
  value of another type reads as nothing.
\<close>

fun arg_str :: "arg option \<Rightarrow> string option" where
  "arg_str (Some (ArgStr v)) = Some v"
| "arg_str _ = None"

fun arg_status :: "arg option \<Rightarrow> Status option" where
  "arg_status (Some (ArgStatus v)) = Some v"
| "arg_status _ = None"

fun arg_priority :: "arg option \<Rightarrow> Priority option" where
  "arg_priority (Some (ArgPriority v)) = Some v"
| "arg_priority _ = None"

fun arg_time :: "arg option \<Rightarrow> time option" where
  "arg_time (Some (ArgTime v)) = Some v"
| "arg_time _ = None"

fun arg_int :: "arg option \<Rightarrow> go_int option" where
  "arg_int (Some (ArgInt v)) = Some v"
| "arg_int _ = None"

fun arg_meta :: "arg option \<Rightarrow> Metadata option" where
  "arg_meta (Some (ArgMeta v)) = Some v"
| "arg_meta _ = None"

fun strings_Join :: "string list \<Rightarrow> string \<Rightarrow> string" where
  "strings_Join [] sep = []"
| "strings_Join [x] sep = x"
| "strings_Join (x # y # xs) sep = x @ sep @ strings_Join (y # xs) sep"

subsection \<open>Statements built clause by clause\<close>

text \<open>
  \<open>UpdateTodo\<close> and \<open>GetTodos\<close> grow a list of clauses and the map of named arguments
  side by side.  The two steps of the recurring block
  \<^verbatim>\<open>if p != nil { clauses = append(clauses, c); args[k] = *p }\<close>
  are \<open>append_clause\<close> and \<open>bind_arg\<close>; \<open>if_present\<close> is the test of the pointer.
\<close>

type_synonym 'c builder = "'c list \<times> NamedArgs"

definition append_clause :: "'c \<Rightarrow> 'c builder \<Rightarrow> 'c builder" where
  "append_clause c st = (fst st @ [c], snd st)"

definition bind_arg :: "string \<Rightarrow> arg \<Rightarrow> 'c builder \<Rightarrow> 'c builder" where
  "bind_arg k a st = (fst st, (snd st)(k \<mapsto> a))"

definition if_present :: "'a option \<Rightarrow> ('a \<Rightarrow> 'c builder \<Rightarrow> 'c builder) \<Rightarrow> 'c builder \<Rightarrow> 'c builder" where
  "if_present p f st = (case p of None \<Rightarrow> st | Some v \<Rightarrow> f v st)"

subsection \<open>UpdateTodo\<close>

datatype set_clause =
    SetTitle | SetDescription | SetStatus | SetCompletedAt | SetCompletedAtNull
  | SetPriority | SetDueDate | SetParentTodoID | SetCategoryID | SetMetadata

fun set_clause_sql :: "set_clause \<Rightarrow> string" where
  "set_clause_sql SetTitle = ''title = @title''"
| "set_clause_sql SetDescription = ''description = @description''"
| "set_clause_sql SetStatus = ''status = @status''"
| "set_clause_sql SetCompletedAt = ''completed_at = @completed_at''"
| "set_clause_sql SetCompletedAtNull = ''completed_at = NULL''"
| "set_clause_sql SetPriority = ''priority = @priority''"
| "set_clause_sql SetDueDate = ''due_date = @due_date''"
| "set_clause_sql SetParentTodoID = ''parent_todo_id = @parent_todo_id''"
| "set_clause_sql SetCategoryID = ''category_id = @category_id''"
| "set_clause_sql SetMetadata = ''metadata = @metadata''"

text \<open>
  The assignment a SET clause performs on a row, with the value read from the named
  arguments.  An argument that does not read at the column's type leaves the row as it is;
  the code never binds one.
\<close>

fun set_clause_apply :: "NamedArgs \<Rightarrow> set_clause \<Rightarrow> Todo \<Rightarrow> Todo" where
  "set_clause_apply args SetTitle t =
     (case arg_str (args ''title'') of Some v \<Rightarrow> t\<lparr>t_Title := v\<rparr> | None \<Rightarrow> t)"
| "set_clause_apply args SetDescription t =
     (case arg_str (args ''description'') of Some v \<Rightarrow> t\<lparr>t_Description := Some v\<rparr> | None \<Rightarrow> t)"
| "set_clause_apply args SetStatus t =
     (case arg_status (args ''status'') of Some v \<Rightarrow> t\<lparr>t_Status := v\<rparr> | None \<Rightarrow> t)"
| "set_clause_apply args SetCompletedAt t =
     (case arg_time (args ''completed_at'') of Some v \<Rightarrow> t\<lparr>t_CompletedAt := Some v\<rparr> | None \<Rightarrow> t)"
| "set_clause_apply args SetCompletedAtNull t = t\<lparr>t_CompletedAt := None\<rparr>"
| "set_clause_apply args SetPriority t =
     (case arg_priority (args ''priority'') of Some v \<Rightarrow> t\<lparr>t_Priority := v\<rparr> | None \<Rightarrow> t)"
| "set_clause_apply args SetDueDate t =
     (case arg_time (args ''due_date'') of Some v \<Rightarrow> t\<lparr>t_DueDate := Some v\<rparr> | None \<Rightarrow> t)"
| "set_clause_apply args SetParentTodoID t =
     (case arg_str (args ''parent_todo_id'') of
        Some v \<Rightarrow> t\<lparr>t_ParentTodoID := Some v\<rparr> | None \<Rightarrow> t)"
| "set_clause_apply args SetCategoryID t =
     (case arg_str (args ''category_id'') of Some v \<Rightarrow> t\<lparr>t_CategoryID := Some v\<rparr> | None \<Rightarrow> t)"
| "set_clause_apply args SetMetadata t =
     (case arg_meta (args ''metadata'') of Some v \<Rightarrow> t\<lparr>t_Metadata := Some v\<rparr> | None \<Rightarrow> t)"

text \<open>
  The status block of \<open>UpdateTodo\<close>:
  \<^verbatim>\<open>if *payload.Status == todo.StatusCompleted { ... completed_at = @completed_at ... }
  else if *payload.Status != todo.StatusCompleted { ... completed_at = NULL ... }\<close>
\<close>

definition set_status :: "time \<Rightarrow> Status \<Rightarrow> set_clause builder \<Rightarrow> set_clause builder" where
  "set_status now v st =
     (let st = bind_arg ''status'' (ArgStatus v) (append_clause SetStatus st)
      in if v = StatusCompleted
         then bind_arg ''completed_at'' (ArgTime now) (append_clause SetCompletedAt st)
         else if v \<noteq> StatusCompleted
         then append_clause SetCompletedAtNull st
         else st)"

text \<open>
  The clauses and arguments of \<open>UpdateTodo\<close>, one step per \<open>if\<close> of the source, in
  its order.
\<close>

definition UpdateTodo_build :: "time \<Rightarrow> string \<Rightarrow> UpdateTodoPayload \<Rightarrow> set_clause builder" where
  "UpdateTodo_build now userID payload =
    (let st = ([], [''todo_id'' \<mapsto> ArgStr (u_ID payload), ''user_id'' \<mapsto> ArgStr userID]);
         st = if_present (u_Title payload)
                (\<lambda>v st. bind_arg ''title'' (ArgStr v) (append_clause SetTitle st)) st;
         st = if_present (u_Description payload)
                (\<lambda>v st. bind_arg ''description'' (ArgStr v) (append_clause SetDescription st)) st;
         st = if_present (u_Status payload) (set_status now) st;
         st = if_present (u_Priority payload)
                (\<lambda>v st. bind_arg ''priority'' (ArgPriority v) (append_clause SetPriority st)) st;
         st = if_present (u_DueDate payload)
                (\<lambda>v st. bind_arg ''due_date'' (ArgTime v) (append_clause SetDueDate st)) st;
         st = if_present (u_ParentTodoID payload)
                (\<lambda>v st. bind_arg ''parent_todo_id'' (ArgStr v) (append_clause SetParentTodoID st)) st;
         st = if_present (u_CategoryID payload)
                (\<lambda>v st. bind_arg ''category_id'' (ArgStr v) (append_clause SetCategoryID st)) st;
         st = if_present (u_Metadata payload)
                (\<lambda>v st. bind_arg ''metadata'' (ArgMeta v) (append_clause SetMetadata st)) st
     in st)"

definition UpdateTodo_stmt :: "set_clause list \<Rightarrow> string" where
  "UpdateTodo_stmt setClauses =
     ''UPDATE todos SET '' @ strings_Join (map set_clause_sql setClauses) '', ''
       @ '' WHERE id = @todo_id AND user_id = @user_id RETURNING *''"

text \<open>
  \<open>WHERE id = @... AND user_id = @user_id\<close>: a comparison with a missing or NULL
  argument is not true.
\<close>

definition row_scope :: "NamedArgs \<Rightarrow> string \<Rightarrow> Todo \<Rightarrow> bool" where
  "row_scope args idArg t =
     (args idArg = Some (ArgStr (t_ID t)) \<and> args ''user_id'' = Some (ArgStr (t_UserID t)))"

text \<open>
  Modelled from the spec: the table definition of \<open>todos\<close> (its column defaults and its
  triggers) is not among the sources.  By the data model of the spec the update timestamp
  advances on every mutation; the test of \<open>UpdateTodo\<close> expects the same.
\<close>

definition touch_updated_at :: "env \<Rightarrow> Todo \<Rightarrow> Todo" where
  "touch_updated_at e t = t\<lparr>t_UpdatedAt := db_NOW e\<rparr>"

text \<open>
  The store's side of the UPDATE: every row in scope gets the SET clauses and the new
  update timestamp; \<open>RETURNING *\<close> yields the rows written, in table order.
\<close>

definition update_row :: "env \<Rightarrow> set_clause list \<Rightarrow> NamedArgs \<Rightarrow> Todo \<Rightarrow> Todo" where
  "update_row e setClauses args t =
     touch_updated_at e (foldl (\<lambda>row c. set_clause_apply args c row) t setClauses)"

definition exec_update :: "db \<Rightarrow> env \<Rightarrow> set_clause list \<Rightarrow> NamedArgs \<Rightarrow> Todo list \<times> db" where
  "exec_update d e setClauses args =
     (map (update_row e setClauses args) (filter (row_scope args ''todo_id'') (todos d)),
      d\<lparr>todos := map (\<lambda>t. if row_scope args ''todo_id'' t
                            then update_row e setClauses args t else t) (todos d)\<rparr>)"

text \<open>\<open>pgx.CollectOneRow\<close>: the first row, or \<open>pgx.ErrNoRows\<close>.\<close>

definition CollectOneRow :: "error option \<Rightarrow> 'a list \<Rightarrow> error + 'a" where
  "CollectOneRow rerr rows =
     (case rerr of
        Some err \<Rightarrow> Inl err
      | None \<Rightarrow> (case rows of [] \<Rightarrow> Inl ErrNoRows | r # _ \<Rightarrow> Inr r))"

definition UpdateTodo :: "db \<Rightarrow> env \<Rightarrow> string \<Rightarrow> UpdateTodoPayload \<Rightarrow> Todo result \<times> db" where
  "UpdateTodo d e userID payload =
    (let (setClauses, args) = UpdateTodo_build (time_Now e) userID payload
     in if length setClauses = 0
        then (Fail (BadRequestError ''no fields to update''), d)
        else
          (case query_err e of
             Some err \<Rightarrow> (Fail (Errorf ''failed to execute query'' err), d)
           | None \<Rightarrow>
               (let (rows, d') = exec_update d e setClauses args
                in case CollectOneRow (rows_err e) rows of
                     Inl err \<Rightarrow>
                       (Fail (Errorf ''failed to collect row from table:todos'' err),
                        if rows_err e = None then d' else d)
                   | Inr updatedTodo \<Rightarrow> (Return updatedTodo, d'))))"

subsection \<open>CreateTodo\<close>

text \<open>
  Modelled from the spec: the table definition of \<open>todos\<close> is not among the sources.  The
  INSERT of \<open>CreateTodo\<close> names eight columns; the others take the defaults of the table.
  By the spec the status of a new row is draft and its completion timestamp is absent; the
  store assigns the identifier and both timestamps.  The sort order is taken to start at 0.
\<close>

definition insert_row :: "env \<Rightarrow> NamedArgs \<Rightarrow> Todo option" where
  "insert_row e args =
     (case (arg_str (args ''user_id''), arg_str (args ''title''),
            arg_priority (args ''priority'')) of
        (Some userID, Some title, Some priority) \<Rightarrow>
          Some \<lparr>t_ID = db_new_id e,
                t_UserID = userID,
                t_Title = title,
                t_Description = arg_str (args ''description''),
                t_Status = StatusDraft,
                t_Priority = priority,
                t_DueDate = arg_time (args ''due_date''),
                t_CompletedAt = None,
                t_ParentTodoID = arg_str (args ''parent_todo_id''),
                t_CategoryID = arg_str (args ''category_id''),
                t_Metadata = arg_meta (args ''metadata''),
                t_SortOrder = 0,
                t_CreatedAt = db_NOW e,
                t_UpdatedAt = db_NOW e\<rparr>
      | _ \<Rightarrow> None)"

definition CreateTodo_args :: "string \<Rightarrow> CreateTodoPayload \<Rightarrow> NamedArgs" where
  "CreateTodo_args userID payload =
    (let priority = PriorityMedium;
         priority = (case c_Priority payload of Some p \<Rightarrow> p | None \<Rightarrow> priority)
     in [''user_id'' \<mapsto> ArgStr userID,
         ''title'' \<mapsto> ArgStr (c_Title payload),
         ''description'' \<mapsto> ptr_arg ArgStr (c_Description payload),
         ''priority'' \<mapsto> ArgPriority priority,
         ''due_date'' \<mapsto> ptr_arg ArgTime (c_DueDate payload),
         ''parent_todo_id'' \<mapsto> ptr_arg ArgStr (c_ParentTodoID payload),
         ''category_id'' \<mapsto> ptr_arg ArgStr (c_CategoryID payload),
         ''metadata'' \<mapsto> ptr_arg ArgMeta (c_Metadata payload)])"

definition CreateTodo :: "db \<Rightarrow> env \<Rightarrow> string \<Rightarrow> CreateTodoPayload \<Rightarrow> Todo result \<times> db" where
  "CreateTodo d e userID payload =
    (let args = CreateTodo_args userID payload
     in case query_err e of
          Some err \<Rightarrow>
            (Fail (Errorf (''failed to execute create todo query for user_id='' @ userID
                     @ '' title='' @ c_Title payload) err), d)
        | None \<Rightarrow>
            (let rows = (case insert_row e args of None \<Rightarrow> [] | Some row \<Rightarrow> [row])
             in case CollectOneRow (rows_err e) rows of
                  Inl err \<Rightarrow>
                    (Fail (Errorf (''failed to collect row from table:todos for user_id='' @ userID
                             @ '' title='' @ c_Title payload) err), d)
                | Inr todoItem \<Rightarrow> (Return todoItem, d\<lparr>todos := todos d @ rows\<rparr>)))"

subsection \<open>GetTodoByID, CheckTodoExists, DeleteTodo\<close>

text \<open>
  The three LEFT JOINs of the populated read and the aggregates over each group.  A row of
  the group pairs one child (or NULL) with one comment (or NULL); each aggregate keeps the
  non-NULL entries of its side, in its order.  Identifiers are primary keys (the statement
  selects \<open>t.*\<close> under \<open>GROUP BY t.id, c.id\<close>), so at most one category joins.
\<close>

definition left_join :: "'a list \<Rightarrow> 'a option list" where
  "left_join xs = (if xs = [] then [None] else map Some xs)"

definition populate :: "db \<Rightarrow> NamedArgs \<Rightarrow> Todo \<Rightarrow> PopulatedTodo" where
  "populate d args t =
    (let cs = filter (\<lambda>c. t_CategoryID t = Some (cat_ID c)
                           \<and> args ''user_id'' = Some (ArgStr (cat_UserID c))) (todo_categories d);
         children = filter (\<lambda>child. t_ParentTodoID child = Some (t_ID t)
                           \<and> args ''user_id'' = Some (ArgStr (t_UserID child))) (todos d);
         comments = filter (\<lambda>com. com_TodoID com = t_ID t
                           \<and> args ''user_id'' = Some (ArgStr (com_UserID com))) (todo_comments d);
         group = List.product (left_join children) (left_join comments)
     in \<lparr>p_Todo = t,
         p_Category = (case cs of [] \<Rightarrow> None | c # _ \<Rightarrow> Some c),
         p_Children = sort_key (\<lambda>child. (t_SortOrder child, t_CreatedAt child))
                        (List.map_filter fst group),
         p_Comments = sort_key com_CreatedAt (List.map_filter snd group)\<rparr>)"

definition GetTodoByID :: "db \<Rightarrow> env \<Rightarrow> string \<Rightarrow> uuid \<Rightarrow> PopulatedTodo result" where
  "GetTodoByID d e userID todoID =
    (let args = [''id'' \<mapsto> ArgStr todoID, ''user_id'' \<mapsto> ArgStr userID]
     in case query_err e of
          Some err \<Rightarrow>
            Fail (Errorf (''failed to execute get todo by id query for todo_id='' @ todoID
                    @ '' user_id='' @ userID) err)
        | None \<Rightarrow>
            (case CollectOneRow (rows_err e)
                    (map (populate d args) (filter (row_scope args ''id'') (todos d))) of
               Inl err \<Rightarrow>
                 Fail (Errorf (''failed to collect row from table:todos for todo_id='' @ todoID
                         @ '' user_id='' @ userID) err)
             | Inr todoItem \<Rightarrow> Return todoItem))"

definition CheckTodoExists :: "db \<Rightarrow> env \<Rightarrow> string \<Rightarrow> uuid \<Rightarrow> Todo result" where
  "CheckTodoExists d e userID todoID =
    (let args = [''id'' \<mapsto> ArgStr todoID, ''user_id'' \<mapsto> ArgStr userID]
     in case query_err e of
          Some err \<Rightarrow>
            Fail (Errorf (''failed to check if todo exists for todo_id='' @ todoID
                    @ '' user_id='' @ userID) err)
        | None \<Rightarrow>
            (case CollectOneRow (rows_err e) (filter (row_scope args ''id'') (todos d)) of
               Inl err \<Rightarrow>
                 Fail (Errorf (''failed to collect row from table:todos for todo_id='' @ todoID
                         @ '' user_id='' @ userID) err)
             | Inr todoItem \<Rightarrow> Return todoItem))"

text \<open>The store's side of the DELETE: the number of rows affected and the new tables.\<close>

definition exec_delete :: "db \<Rightarrow> NamedArgs \<Rightarrow> nat \<times> db" where
  "exec_delete d args =
     (length (filter (row_scope args ''todo_id'') (todos d)),
      d\<lparr>todos := filter (\<lambda>t. \<not> row_scope args ''todo_id'' t) (todos d)\<rparr>)"

definition DeleteTodo :: "db \<Rightarrow> env \<Rightarrow> string \<Rightarrow> uuid \<Rightarrow> unit result \<times> db" where
  "DeleteTodo d e userID todoID =
    (let args = [''todo_id'' \<mapsto> ArgStr todoID, ''user_id'' \<mapsto> ArgStr userID]
     in case query_err e of
          Some err \<Rightarrow> (Fail (Errorf ''failed to execute query'' err), d)
        | None \<Rightarrow>
            (let (RowsAffected, d') = exec_delete d args
             in if RowsAffected = 0
                then (let code = ''TODO_NOT_FOUND''
                      in (Fail (NotFoundError ''todo not found'' (Some code)), d'))
                else (Return (), d')))"

subsection \<open>GetTodos: the conditions\<close>

datatype cond =
    CondUserID | CondStatus | CondPriority | CondCategoryID | CondParentTodoID
  | CondParentIsNull | CondDueFrom | CondDueTo | CondOverdue | CondCompleted
  | CondNotCompleted | CondSearch

definition sq :: string where
  "sq = [CHR 0x27]"
  \<comment> \<open>the single quote of an SQL literal\<close>

fun cond_sql :: "cond \<Rightarrow> string" where
  "cond_sql CondUserID = ''t.user_id = @user_id''"
| "cond_sql CondStatus = ''t.status = @status''"
| "cond_sql CondPriority = ''t.priority = @priority''"
| "cond_sql CondCategoryID = ''t.category_id = @category_id''"
| "cond_sql CondParentTodoID = ''t.parent_todo_id = @parent_todo_id''"
| "cond_sql CondParentIsNull = ''t.parent_todo_id IS NULL''"
| "cond_sql CondDueFrom = ''t.due_date >= @due_from''"
| "cond_sql CondDueTo = ''t.due_date <= @due_to''"
| "cond_sql CondOverdue = ''t.due_date < NOW() AND t.status != '' @ sq @ ''completed'' @ sq"
| "cond_sql CondCompleted = ''t.status = '' @ sq @ ''completed'' @ sq"
| "cond_sql CondNotCompleted = ''t.status != '' @ sq @ ''completed'' @ sq"
| "cond_sql CondSearch = ''(t.title ILIKE @search OR t.description ILIKE @search)''"

text \<open>
  The store's \<open>LIKE\<close>: in a pattern \<open>%\<close> stands for any run of characters, \<open>_\<close> for
  any one character, and a backslash takes the next character literally (a pattern ending
  in a lone backslash matches nothing).  \<open>ILIKE\<close> compares without regard to case.
  The model is of ASCII text: a character is one byte and the letters folded are \<open>A\<close>
  to \<open>Z\<close>.  How the store folds other letters depends on its locale and is not
  modelled; what rests on the folding is stated for ASCII text.
\<close>

fun like_match :: "string \<Rightarrow> string \<Rightarrow> bool" where
  "like_match [] s = (s = [])"
| "like_match (p # ps) [] = (p = CHR ''%'' \<and> like_match ps [])"
| "like_match (p # ps) (c # cs) =
     (if p = CHR ''%'' then like_match ps (c # cs) \<or> like_match (p # ps) cs
      else if p = CHR ''_'' then like_match ps cs
      else if p = CHR 0x5C then (case ps of [] \<Rightarrow> False | q # qs \<Rightarrow> q = c \<and> like_match qs cs)
      else p = c \<and> like_match ps cs)"

definition to_lower :: "char \<Rightarrow> char" where
  "to_lower c = (let n = (of_char c :: nat) in if 65 \<le> n \<and> n \<le> 90 then char_of (n + 32) else c)"

definition ILIKE :: "string \<Rightarrow> string \<Rightarrow> bool" where
  "ILIKE s pattern = like_match (map to_lower pattern) (map to_lower s)"

text \<open>
  When a condition holds of a row: SQL comparisons with the bound arguments, where a
  comparison involving NULL (an absent column value or argument) is not true.
\<close>

fun cond_holds :: "NamedArgs \<Rightarrow> time \<Rightarrow> Todo \<Rightarrow> cond \<Rightarrow> bool" where
  "cond_holds args now t CondUserID = (args ''user_id'' = Some (ArgStr (t_UserID t)))"
| "cond_holds args now t CondStatus = (args ''status'' = Some (ArgStatus (t_Status t)))"
| "cond_holds args now t CondPriority = (args ''priority'' = Some (ArgPriority (t_Priority t)))"
| "cond_holds args now t CondCategoryID =
     (case t_CategoryID t of None \<Rightarrow> False | Some c \<Rightarrow> args ''category_id'' = Some (ArgStr c))"
| "cond_holds args now t CondParentTodoID =
     (case t_ParentTodoID t of None \<Rightarrow> False | Some p \<Rightarrow> args ''parent_todo_id'' = Some (ArgStr p))"
| "cond_holds args now t CondParentIsNull = (t_ParentTodoID t = None)"
| "cond_holds args now t CondDueFrom =
     (case (t_DueDate t, arg_time (args ''due_from'')) of
        (Some due, Some v) \<Rightarrow> due \<ge> v | _ \<Rightarrow> False)"
| "cond_holds args now t CondDueTo =
     (case (t_DueDate t, arg_time (args ''due_to'')) of
        (Some due, Some v) \<Rightarrow> due \<le> v | _ \<Rightarrow> False)"
| "cond_holds args now t CondOverdue =
     ((case t_DueDate t of None \<Rightarrow> False | Some due \<Rightarrow> due < now) \<and> t_Status t \<noteq> StatusCompleted)"
| "cond_holds args now t CondCompleted = (t_Status t = StatusCompleted)"
| "cond_holds args now t CondNotCompleted = (t_Status t \<noteq> StatusCompleted)"
| "cond_holds args now t CondSearch =
     (case arg_str (args ''search'') of
        Some pattern \<Rightarrow>
          ILIKE (t_Title t) pattern
          \<or> (case t_Description t of None \<Rightarrow> False | Some descr \<Rightarrow> ILIKE descr pattern)
      | None \<Rightarrow> False)"

text \<open>The conditions and arguments of \<open>GetTodos\<close>, one step per \<open>if\<close> of the source.\<close>

definition GetTodos_where :: "string \<Rightarrow> GetTodosQuery \<Rightarrow> cond builder" where
  "GetTodos_where userID query =
    (let st = ([CondUserID], [''user_id'' \<mapsto> ArgStr userID]);
         st = if_present (q_Status query)
                (\<lambda>v st. bind_arg ''status'' (ArgStatus v) (append_clause CondStatus st)) st;
         st = if_present (q_Priority query)
                (\<lambda>v st. bind_arg ''priority'' (ArgPriority v) (append_clause CondPriority st)) st;
         st = if_present (q_CategoryID query)
                (\<lambda>v st. bind_arg ''category_id'' (ArgStr v) (append_clause CondCategoryID st)) st;
         st = (case q_ParentTodoID query of
                 Some v \<Rightarrow> bind_arg ''parent_todo_id'' (ArgStr v) (append_clause CondParentTodoID st)
               | None \<Rightarrow> append_clause CondParentIsNull st);
         st = if_present (q_DueFrom query)
                (\<lambda>v st. bind_arg ''due_from'' (ArgTime v) (append_clause CondDueFrom st)) st;
         st = if_present (q_DueTo query)
                (\<lambda>v st. bind_arg ''due_to'' (ArgTime v) (append_clause CondDueTo st)) st;
         st = (if q_Overdue query = Some True then append_clause CondOverdue st else st);
         st = if_present (q_Completed query)
                (\<lambda>v st. if v then append_clause CondCompleted st
                         else append_clause CondNotCompleted st) st;
         st = if_present (q_Search query)
                (\<lambda>v st. bind_arg ''search'' (ArgStr (''%'' @ v @ ''%'')) (append_clause CondSearch st)) st
     in st)"

definition where_sql :: "cond list \<Rightarrow> string" where
  "where_sql conditions =
     (if length conditions > 0
      then '' WHERE '' @ strings_Join (map cond_sql conditions) '' AND ''
      else [])"

subsection \<open>GetTodos: order, page and result\<close>

text \<open>
  The text of the ORDER BY clause as the source builds it, and the column and direction it
  names.
\<close>

definition GetTodos_order_by :: "GetTodosQuery \<Rightarrow> string" where
  "GetTodos_order_by query =
     (case q_Sort query of
        Some sort_field \<Rightarrow>
          '' ORDER BY t.'' @ sort_field @ (if q_Order query = Some ''desc'' then '' DESC'' else '' ASC'')
      | None \<Rightarrow> '' ORDER BY t.created_at DESC'')"

definition GetTodos_order :: "GetTodosQuery \<Rightarrow> string \<times> bool" where
  "GetTodos_order query =
     (case q_Sort query of
        Some sort_field \<Rightarrow> (sort_field, q_Order query = Some ''desc'')
      | None \<Rightarrow> (''created_at'', True))"

fun status_sql :: "Status \<Rightarrow> string" where
  "status_sql StatusDraft = ''draft''"
| "status_sql StatusActive = ''active''"
| "status_sql StatusCompleted = ''completed''"
| "status_sql StatusArchived = ''archived''"

fun priority_sql :: "Priority \<Rightarrow> string" where
  "priority_sql PriorityLow = ''low''"
| "priority_sql PriorityMedium = ''medium''"
| "priority_sql PriorityHigh = ''high''"

text \<open>
  The store's reading of \<open>ORDER BY t.<column>\<close>: a key per row, compared as a triple
  (NULL last, then the number, then the text, byte by byte).  Status and priority are
  compared as their texts.  A text that is not one of these columns is not interpreted: the
  model's store reports it as an unknown column.
\<close>

type_synonym sort_key = "nat \<times> int \<times> string"

definition key_time :: "time option \<Rightarrow> sort_key" where
  "key_time v = (case v of None \<Rightarrow> (1, 0, []) | Some x \<Rightarrow> (0, x, []))"

definition key_text :: "string option \<Rightarrow> sort_key" where
  "key_text v = (case v of None \<Rightarrow> (1, 0, []) | Some x \<Rightarrow> (0, 0, x))"

definition order_column :: "string \<Rightarrow> (Todo \<Rightarrow> sort_key) option" where
  "order_column col =
     (if col = ''created_at'' then Some (\<lambda>t. key_time (Some (t_CreatedAt t)))
      else if col = ''updated_at'' then Some (\<lambda>t. key_time (Some (t_UpdatedAt t)))
      else if col = ''title'' then Some (\<lambda>t. key_text (Some (t_Title t)))
      else if col = ''priority'' then Some (\<lambda>t. key_text (Some (priority_sql (t_Priority t))))
      else if col = ''due_date'' then Some (\<lambda>t. key_time (t_DueDate t))
      else if col = ''status'' then Some (\<lambda>t. key_text (Some (status_sql (t_Status t))))
      else if col = ''id'' then Some (\<lambda>t. key_text (Some (t_ID t)))
      else if col = ''user_id'' then Some (\<lambda>t. key_text (Some (t_UserID t)))
      else if col = ''description'' then Some (\<lambda>t. key_text (t_Description t))
      else if col = ''completed_at'' then Some (\<lambda>t. key_time (t_CompletedAt t))
      else if col = ''parent_todo_id'' then Some (\<lambda>t. key_text (t_ParentTodoID t))
      else if col = ''category_id'' then Some (\<lambda>t. key_text (t_CategoryID t))
      else if col = ''sort_order'' then Some (\<lambda>t. (0, t_SortOrder t, []))
      else None)"

definition order_rows :: "(Todo \<Rightarrow> sort_key) \<Rightarrow> bool \<Rightarrow> Todo list \<Rightarrow> Todo list" where
  "order_rows key desc rows = (if desc then rev (sort_key key rows) else sort_key key rows)"

definition matching_rows :: "db \<Rightarrow> time \<Rightarrow> cond list \<Rightarrow> NamedArgs \<Rightarrow> Todo list" where
  "matching_rows d now conditions args =
     filter (\<lambda>t. list_all (cond_holds args now t) conditions) (todos d)"

text \<open>\<open>LIMIT @limit OFFSET @offset\<close>; the store rejects a negative value of either.\<close>

definition page_rows :: "NamedArgs \<Rightarrow> 'a list \<Rightarrow> error + 'a list" where
  "page_rows args rows =
     (case (arg_int (args ''limit''), arg_int (args ''offset'')) of
        (Some l, Some off) \<Rightarrow>
          if sint l < 0 then Inl (ErrStore ''LIMIT must not be negative'')
          else if sint off < 0 then Inl (ErrStore ''OFFSET must not be negative'')
          else Inr (take (nat (sint l)) (drop (nat (sint off)) rows))
      | _ \<Rightarrow> Inl (ErrStore ''there is no parameter''))"

text \<open>
  The store's side of the paged SELECT, as \<open>Pool.Query\<close> and \<open>pgx.CollectRows\<close> see
  it.  A statement the store cannot prepare (the text after \<open>ORDER BY t.\<close> names no
  column) is the error of \<open>Pool.Query\<close>: the outer \<open>Inl\<close>.  An error of the execution
  (a negative LIMIT or OFFSET) shows when the rows are collected: the inner \<open>Inl\<close>.
\<close>

definition exec_select ::
  "db \<Rightarrow> time \<Rightarrow> cond list \<Rightarrow> NamedArgs \<Rightarrow> string \<times> bool
     \<Rightarrow> error + (error + PopulatedTodo list)" where
  "exec_select d now conditions args ord =
     (case order_column (fst ord) of
        None \<Rightarrow> Inl (ErrStore (''column t.'' @ fst ord @ '' does not exist''))
      | Some key \<Rightarrow>
          Inr (case page_rows args
                      (order_rows key (snd ord) (matching_rows d now conditions args)) of
                 Inl err \<Rightarrow> Inl err
               | Inr rows \<Rightarrow> Inr (map (populate d args) rows)))"

text \<open>
  The SELECT of \<open>GetTodos\<close> before its WHERE clause (the aggregates are those of
  \<open>populate\<close>); the text is the same for every call, with the white space of the source
  reduced to single blanks.
\<close>

definition GetTodos_select :: string where
  "GetTodos_select =
     ''SELECT t.*, CASE WHEN c.id IS NOT NULL THEN to_jsonb(camel (c)) ELSE NULL END AS category, ''
     @ ''COALESCE(jsonb_agg(to_jsonb(camel (child)) ORDER BY child.sort_order ASC, child.created_at ASC) ''
     @ ''FILTER (WHERE child.id IS NOT NULL), '' @ sq @ ''[]'' @ sq @ ''::JSONB) AS children, ''
     @ ''COALESCE(jsonb_agg(to_jsonb(camel (com)) ORDER BY com.created_at ASC) ''
     @ ''FILTER (WHERE com.id IS NOT NULL), '' @ sq @ ''[]'' @ sq @ ''::JSONB) AS comments ''
     @ ''FROM todos t LEFT JOIN todo_categories c ON c.id=t.category_id AND c.user_id=@user_id ''
     @ ''LEFT JOIN todos child ON child.parent_todo_id=t.id AND child.user_id=@user_id ''
     @ ''LEFT JOIN todo_comments com ON com.todo_id=t.id AND com.user_id=@user_id''"

text \<open>Go's \<open>/\<close> on \<open>int\<close> truncates towards zero; the caller checks the divisor.\<close>

definition go_div :: "go_int \<Rightarrow> go_int \<Rightarrow> go_int" where
  "go_div a b = word_of_int (sint a sdiv sint b)"

definition nil_dereference :: string where
  "nil_dereference = ''runtime error: invalid memory address or nil pointer dereference''"

definition divide_by_zero :: string where
  "divide_by_zero = ''runtime error: integer divide by zero''"

text \<open>
  \<open>GetTodos\<close> returns its result together with the statements it sent to the pool, in
  order: each is the statement text and the arguments bound to it.
\<close>

type_synonym statement = "string \<times> NamedArgs"

definition GetTodos ::
  "db \<Rightarrow> env \<Rightarrow> string \<Rightarrow> GetTodosQuery \<Rightarrow> PaginatedResponse result \<times> statement list" where
  "GetTodos d e userID query =
    (let (conditions, args) = GetTodos_where userID query;
         stmt = GetTodos_select @ where_sql conditions;
         countStmt = ''SELECT COUNT(*) FROM todos t'' @ where_sql conditions;
         sent = [(countStmt, args)]
     in case count_err e of
          Some err \<Rightarrow>
            (Fail (Errorf (''failed to get total count for todos user_id='' @ userID) err), sent)
        | None \<Rightarrow>
            (let total = (of_nat (length (matching_rows d (db_NOW e) conditions args)) :: go_int);
                 stmt = stmt @ '' GROUP BY t.id, c.id'';
                 stmt = stmt @ GetTodos_order_by query;
                 stmt = stmt @ '' LIMIT @limit OFFSET @offset''
             in case q_Limit query of
                  None \<Rightarrow> (Panic nil_dereference, sent)
                | Some limit \<Rightarrow>
                    (case q_Page query of
                       None \<Rightarrow> (Panic nil_dereference, sent)
                     | Some page \<Rightarrow>
                         (let args = args(''limit'' \<mapsto> ArgInt limit,
                                          ''offset'' \<mapsto> ArgInt ((page - 1) * limit));
                              sent = sent @ [(stmt, args)]
                          in case (case query_err e of
                                     Some err \<Rightarrow> Inl err
                                   | None \<Rightarrow> exec_select d (db_NOW e) conditions args
                                               (GetTodos_order query)) of
                               Inl err \<Rightarrow>
                                 (Fail (Errorf (''failed to execute get todos query for user_id=''
                                          @ userID) err), sent)
                             | Inr rows \<Rightarrow>
                                 (case (case rows_err e of
                                          Some err \<Rightarrow> Inl err
                                        | None \<Rightarrow> rows) of
                                    Inl err \<Rightarrow>
                                      if errors_Is err ErrNoRows
                                      then (Return \<lparr>r_Data = [], r_Page = page, r_Limit = limit,
                                                     r_Total = 0, r_TotalPages = 0\<rparr>, sent)
                                      else (Fail (Errorf
                                              (''failed to collect rows from table:todos for user_id=''
                                                 @ userID) err), sent)
                                  | Inr todoItems \<Rightarrow>
                                      if limit = 0 then (Panic divide_by_zero, sent)
                                      else (Return \<lparr>r_Data = todoItems, r_Page = page, r_Limit = limit,
                                                     r_Total = total,
                                                     r_TotalPages = go_div (total + limit - 1) limit\<rparr>,
                                            sent))))))"

subsection \<open>Notions the properties are stated with\<close>

text \<open>The stored row of an owner's todo: the first row with the identifier and the owner.\<close>

definition find_todo :: "db \<Rightarrow> string \<Rightarrow> uuid \<Rightarrow> Todo option" where
  "find_todo d userID todoID =
     (case filter (\<lambda>t. t_ID t = todoID \<and> t_UserID t = userID) (todos d) of
        [] \<Rightarrow> None
      | t # _ \<Rightarrow> Some t)"

text \<open>The identifier is the primary key of \<open>todos\<close>.\<close>

definition primary_key :: "db \<Rightarrow> bool" where
  "primary_key d = distinct (map t_ID (todos d))"

text \<open>The completion timestamp is present exactly when the status is completed.\<close>

definition completion_inv :: "Todo \<Rightarrow> bool" where
  "completion_inv t = ((t_CompletedAt t \<noteq> None) = (t_Status t = StatusCompleted))"

text \<open>
  The stores this layer produces: from an empty table of todos, by any sequence of calls of
  \<open>CreateTodo\<close>, \<open>UpdateTodo\<close> and \<open>DeleteTodo\<close>, whatever their outcome.
\<close>

inductive reachable :: "db \<Rightarrow> bool" where
  reachable_empty: "todos d = [] \<Longrightarrow> reachable d"
| reachable_CreateTodo: "reachable d \<Longrightarrow> reachable (snd (CreateTodo d e userID payload))"
| reachable_UpdateTodo: "reachable d \<Longrightarrow> reachable (snd (UpdateTodo d e userID upayload))"
| reachable_DeleteTodo: "reachable d \<Longrightarrow> reachable (snd (DeleteTodo d e userID todoID))"

text \<open>
  The store answers every statement of the call: no error of the pool or the driver.
\<close>

definition store_ok :: "env \<Rightarrow> bool" where
  "store_ok e = (count_err e = None \<and> query_err e = None \<and> rows_err e = None)"

text \<open>
  An error that says "not found": the typed error of package \<open>errs\<close>, or an error that
  wraps \<open>pgx.ErrNoRows\<close> (the test \<open>GetTodos\<close> itself uses for "no rows").
\<close>

fun is_NotFound :: "error \<Rightarrow> bool" where
  "is_NotFound (NotFoundError msg code) = True"
| "is_NotFound err = errors_Is err ErrNoRows"

fun fails_NotFound :: "'a result \<Rightarrow> bool" where
  "fails_NotFound (Fail err) = is_NotFound err"
| "fails_NotFound res = False"

text \<open>
  The values the API contract (\<open>packages/openapi/src/contracts/todo.ts\<close>, \<open>getTodos\<close>)
  allows for \<open>sort\<close>.
\<close>

definition sort_allow_list :: "string list" where
  "sort_allow_list = [''created_at'', ''updated_at'', ''title'', ''priority'', ''due_date'', ''status'']"








text \<open>The row \<open>UpdateTodo\<close> writes in place of a stored row in scope.\<close>

definition written_row :: "env \<Rightarrow> string \<Rightarrow> UpdateTodoPayload \<Rightarrow> Todo \<Rightarrow> Todo" where
  "written_row e userID p t =
     update_row e (fst (UpdateTodo_build (time_Now e) userID p))
       (snd (UpdateTodo_build (time_Now e) userID p)) t"

text \<open>
  The values \<open>GetTodos\<close> computes on its way: the two statement texts, the arguments of
  the paged SELECT, and the rows the WHERE clause selects.
\<close>

definition GetTodos_countStmt :: "string \<Rightarrow> GetTodosQuery \<Rightarrow> string" where
  "GetTodos_countStmt userID query =
     ''SELECT COUNT(*) FROM todos t'' @ where_sql (fst (GetTodos_where userID query))"

definition GetTodos_stmt :: "string \<Rightarrow> GetTodosQuery \<Rightarrow> string" where
  "GetTodos_stmt userID query =
     GetTodos_select @ where_sql (fst (GetTodos_where userID query))
       @ '' GROUP BY t.id, c.id'' @ GetTodos_order_by query @ '' LIMIT @limit OFFSET @offset''"

definition GetTodos_page_args :: "string \<Rightarrow> GetTodosQuery \<Rightarrow> go_int \<Rightarrow> go_int \<Rightarrow> NamedArgs" where
  "GetTodos_page_args userID query limit page =
     (snd (GetTodos_where userID query))
       (''limit'' \<mapsto> ArgInt limit, ''offset'' \<mapsto> ArgInt ((page - 1) * limit))"

definition GetTodos_matching :: "db \<Rightarrow> env \<Rightarrow> string \<Rightarrow> GetTodosQuery \<Rightarrow> Todo list" where
  "GetTodos_matching d e userID query =
     matching_rows d (db_NOW e) (fst (GetTodos_where userID query))
       (snd (GetTodos_where userID query))"

text \<open>The empty page, and the two statements a call sends when it gets that far.\<close>

definition GetTodos_empty :: "go_int \<Rightarrow> go_int \<Rightarrow> PaginatedResponse" where
  "GetTodos_empty page limit =
     \<lparr>r_Data = [], r_Page = page, r_Limit = limit, r_Total = 0, r_TotalPages = 0\<rparr>"

definition GetTodos_sent :: "string \<Rightarrow> GetTodosQuery \<Rightarrow> go_int \<Rightarrow> go_int \<Rightarrow> statement list" where
  "GetTodos_sent userID query limit page =
     [(GetTodos_countStmt userID query, snd (GetTodos_where userID query)),
      (GetTodos_stmt userID query, GetTodos_page_args userID query limit page)]"

text \<open>
  What the conditions of a query say about a row, in the words of the spec (4.1): the
  owner, each filter that is given, root rows unless a parent is asked for, and the search
  pattern against title or description.
\<close>

definition search_matches :: "string \<Rightarrow> Todo \<Rightarrow> bool" where
  "search_matches pattern t =
     (ILIKE (t_Title t) pattern
      \<or> (case t_Description t of None \<Rightarrow> False | Some descr \<Rightarrow> ILIKE descr pattern))"

definition query_matches :: "string \<Rightarrow> time \<Rightarrow> GetTodosQuery \<Rightarrow> Todo \<Rightarrow> bool" where
  "query_matches userID now query t =
     (t_UserID t = userID
      \<and> (case q_Status query of None \<Rightarrow> True | Some v \<Rightarrow> t_Status t = v)
      \<and> (case q_Priority query of None \<Rightarrow> True | Some v \<Rightarrow> t_Priority t = v)
      \<and> (case q_CategoryID query of None \<Rightarrow> True | Some v \<Rightarrow> t_CategoryID t = Some v)
      \<and> t_ParentTodoID t = q_ParentTodoID query
      \<and> (case q_DueFrom query of None \<Rightarrow> True
          | Some v \<Rightarrow> (case t_DueDate t of None \<Rightarrow> False | Some due \<Rightarrow> v \<le> due))
      \<and> (case q_DueTo query of None \<Rightarrow> True
          | Some v \<Rightarrow> (case t_DueDate t of None \<Rightarrow> False | Some due \<Rightarrow> due \<le> v))
      \<and> (if q_Overdue query = Some True
          then (case t_DueDate t of None \<Rightarrow> False | Some due \<Rightarrow> due < now)
               \<and> t_Status t \<noteq> StatusCompleted
          else True)
      \<and> (case q_Completed query of None \<Rightarrow> True
          | Some v \<Rightarrow> (t_Status t = StatusCompleted) = v)
      \<and> (case q_Search query of None \<Rightarrow> True
          | Some v \<Rightarrow> search_matches (''%'' @ v @ ''%'') t))"

text \<open>The row \<open>CreateTodo\<close> inserts when the store accepts the statement.\<close>

definition created_row :: "env \<Rightarrow> string \<Rightarrow> CreateTodoPayload \<Rightarrow> Todo" where
  "created_row e userID payload =
     \<lparr>t_ID = db_new_id e, t_UserID = userID, t_Title = c_Title payload,
      t_Description = c_Description payload, t_Status = StatusDraft,
      t_Priority = (case c_Priority payload of Some p \<Rightarrow> p | None \<Rightarrow> PriorityMedium),
      t_DueDate = c_DueDate payload, t_CompletedAt = None,
      t_ParentTodoID = c_ParentTodoID payload, t_CategoryID = c_CategoryID payload,
      t_Metadata = c_Metadata payload, t_SortOrder = 0,
      t_CreatedAt = db_NOW e, t_UpdatedAt = db_NOW e\<rparr>"

text \<open>Inputs the properties are run on.\<close>

definition todo1 :: Todo where
  "todo1 = \<lparr>t_ID = ''t1'', t_UserID = ''alice'', t_Title = ''Test Todo'',
            t_Description = Some ''Test todo description'', t_Status = StatusDraft,
            t_Priority = PriorityHigh, t_DueDate = Some 500, t_CompletedAt = None,
            t_ParentTodoID = None, t_CategoryID = None, t_Metadata = None, t_SortOrder = 0,
            t_CreatedAt = 10, t_UpdatedAt = 10\<rparr>"

definition todo2 :: Todo where
  "todo2 = \<lparr>t_ID = ''t2'', t_UserID = ''alice'', t_Title = ''x'',
            t_Description = None, t_Status = StatusActive,
            t_Priority = PriorityLow, t_DueDate = None, t_CompletedAt = None,
            t_ParentTodoID = Some ''t1'', t_CategoryID = None, t_Metadata = None, t_SortOrder = 0,
            t_CreatedAt = 20, t_UpdatedAt = 20\<rparr>"

definition db1 :: db where
  "db1 = \<lparr>todos = [todo1, todo2], todo_categories = [], todo_comments = []\<rparr>"

definition db0 :: db where
  "db0 = \<lparr>todos = [], todo_categories = [], todo_comments = []\<rparr>"

definition env1 :: env where
  "env1 = \<lparr>time_Now = 100, db_NOW = 101, db_new_id = ''t9'',
           count_err = None, query_err = None, rows_err = None\<rparr>"

definition no_update :: "uuid \<Rightarrow> UpdateTodoPayload" where
  "no_update todoID =
     \<lparr>u_ID = todoID, u_Title = None, u_Description = None, u_Status = None, u_Priority = None,
      u_DueDate = None, u_ParentTodoID = None, u_CategoryID = None, u_Metadata = None\<rparr>"

definition query1 :: GetTodosQuery where
  "query1 = \<lparr>q_Page = Some 1, q_Limit = Some 20, q_Sort = None, q_Order = None,
             q_Search = None, q_Status = None, q_Priority = None, q_CategoryID = None,
             q_ParentTodoID = None, q_DueFrom = None, q_DueTo = None, q_Overdue = None,
             q_Completed = None\<rparr>"

definition title_only :: "string \<Rightarrow> CreateTodoPayload" where
  "title_only title =
     \<lparr>c_Title = title, c_Description = None, c_Priority = None, c_DueDate = None,
      c_ParentTodoID = None, c_CategoryID = None, c_Metadata = None\<rparr>"

definition todo9 :: Todo where
  "todo9 = \<lparr>t_ID = ''t9'', t_UserID = ''bob'', t_Title = ''Minimal Todo'',
             t_Description = None, t_Status = StatusDraft,
             t_Priority = PriorityMedium, t_DueDate = None, t_CompletedAt = None,
             t_ParentTodoID = None, t_CategoryID = None, t_Metadata = None,
             t_SortOrder = 0, t_CreatedAt = 101, t_UpdatedAt = 101\<rparr>"

definition db9 :: db where
  "db9 = \<lparr>todos = [todo9], todo_categories = [], todo_comments = []\<rparr>"

definition todo3 :: Todo where
  "todo3 = \<lparr>t_ID = ''t3'', t_UserID = ''alice'', t_Title = ''Test Todo 3'',
            t_Description = None, t_Status = StatusDraft,
            t_Priority = PriorityHigh, t_DueDate = None, t_CompletedAt = None,
            t_ParentTodoID = None, t_CategoryID = None, t_Metadata = None, t_SortOrder = 0,
            t_CreatedAt = 30, t_UpdatedAt = 30\<rparr>"

definition db2 :: db where
  "db2 = \<lparr>todos = [todo1, todo3], todo_categories = [], todo_comments = []\<rparr>"

section \<open>Properties\<close>

subsection \<open>The builder\<close>

lemma fst_append_clause [simp]: "fst (append_clause c st) = fst st @ [c]"
  by (simp add: append_clause_def)
lemma snd_append_clause [simp]: "snd (append_clause c st) = snd st"
  by (simp add: append_clause_def)
lemma fst_bind_arg [simp]: "fst (bind_arg k a st) = fst st"
  by (simp add: bind_arg_def)
lemma snd_bind_arg [simp]: "snd (bind_arg k a st) = (snd st)(k \<mapsto> a)"
  by (simp add: bind_arg_def)

lemma clauses_if_present_bind:
  "x \<in> set (fst (if_present p (\<lambda>v st. bind_arg k (f v) (append_clause c st)) st))
     \<longleftrightarrow> x \<in> set (fst st) \<or> (p \<noteq> None \<and> x = c)"
  by (cases p) (auto simp: if_present_def)

lemma args_if_present_bind:
  "snd (if_present p (\<lambda>v st. bind_arg k (f v) (append_clause c st)) st) k'
     = (if k' = k \<and> p \<noteq> None then map_option f p else snd st k')"
  by (cases p) (auto simp: if_present_def)

lemma clauses_set_status:
  "x \<in> set (fst (if_present p (set_status now) st))
     \<longleftrightarrow> x \<in> set (fst st) \<or> (p \<noteq> None \<and> x = SetStatus)
         \<or> (p = Some StatusCompleted \<and> x = SetCompletedAt)
         \<or> (p \<noteq> None \<and> p \<noteq> Some StatusCompleted \<and> x = SetCompletedAtNull)"
  by (cases p) (auto simp: if_present_def set_status_def Let_def)

lemma args_set_status:
  "snd (if_present p (set_status now) st) k'
     = (if k' = ''status'' \<and> p \<noteq> None then map_option ArgStatus p
        else if k' = ''completed_at'' \<and> p = Some StatusCompleted then Some (ArgTime now)
        else snd st k')"
  by (cases p) (auto simp: if_present_def set_status_def Let_def)

lemma UpdateTodo_clauses:
  "x \<in> set (fst (UpdateTodo_build now userID p)) \<longleftrightarrow>
     (u_Title p \<noteq> None \<and> x = SetTitle) \<or> (u_Description p \<noteq> None \<and> x = SetDescription)
     \<or> (u_Status p \<noteq> None \<and> x = SetStatus)
     \<or> (u_Status p = Some StatusCompleted \<and> x = SetCompletedAt)
     \<or> (u_Status p \<noteq> None \<and> u_Status p \<noteq> Some StatusCompleted \<and> x = SetCompletedAtNull)
     \<or> (u_Priority p \<noteq> None \<and> x = SetPriority) \<or> (u_DueDate p \<noteq> None \<and> x = SetDueDate)
     \<or> (u_ParentTodoID p \<noteq> None \<and> x = SetParentTodoID)
     \<or> (u_CategoryID p \<noteq> None \<and> x = SetCategoryID)
     \<or> (u_Metadata p \<noteq> None \<and> x = SetMetadata)"
  unfolding UpdateTodo_build_def Let_def
  by (simp add: clauses_if_present_bind clauses_set_status disj_commute disj_left_commute)

lemma UpdateTodo_args:
  "snd (UpdateTodo_build now userID p) ''title'' = map_option ArgStr (u_Title p)"
  "snd (UpdateTodo_build now userID p) ''description'' = map_option ArgStr (u_Description p)"
  "snd (UpdateTodo_build now userID p) ''status'' = map_option ArgStatus (u_Status p)"
  "snd (UpdateTodo_build now userID p) ''completed_at''
     = (if u_Status p = Some StatusCompleted then Some (ArgTime now) else None)"
  "snd (UpdateTodo_build now userID p) ''priority'' = map_option ArgPriority (u_Priority p)"
  "snd (UpdateTodo_build now userID p) ''due_date'' = map_option ArgTime (u_DueDate p)"
  "snd (UpdateTodo_build now userID p) ''parent_todo_id'' = map_option ArgStr (u_ParentTodoID p)"
  "snd (UpdateTodo_build now userID p) ''category_id'' = map_option ArgStr (u_CategoryID p)"
  "snd (UpdateTodo_build now userID p) ''metadata'' = map_option ArgMeta (u_Metadata p)"
  "snd (UpdateTodo_build now userID p) ''todo_id'' = Some (ArgStr (u_ID p))"
  "snd (UpdateTodo_build now userID p) ''user_id'' = Some (ArgStr userID)"
  unfolding UpdateTodo_build_def Let_def
  by (simp_all add: args_if_present_bind args_set_status)

lemma arg_map_option [simp]:
  "arg_str (map_option ArgStr p) = p"
  "arg_status (map_option ArgStatus q) = q"
  "arg_priority (map_option ArgPriority r) = r"
  "arg_time (map_option ArgTime s) = s"
  "arg_meta (map_option ArgMeta m) = m"
proof -
  show "arg_str (map_option ArgStr p) = p" by (cases p) simp_all
  show "arg_status (map_option ArgStatus q) = q" by (cases q) simp_all
  show "arg_priority (map_option ArgPriority r) = r" by (cases r) simp_all
  show "arg_time (map_option ArgTime s) = s" by (cases s) simp_all
  show "arg_meta (map_option ArgMeta m) = m" by (cases m) simp_all
qed

subsection \<open>What the SET clauses do to a row\<close>

lemma apply_frame:
  "t_ID (set_clause_apply args c t) = t_ID t"
  "t_UserID (set_clause_apply args c t) = t_UserID t"
  "t_SortOrder (set_clause_apply args c t) = t_SortOrder t"
  "t_CreatedAt (set_clause_apply args c t) = t_CreatedAt t"
  by (cases c; simp split: option.splits)+

lemma apply_fields:
  "t_Title (set_clause_apply args c t) =
     (if c = SetTitle then (case arg_str (args ''title'') of Some v \<Rightarrow> v | None \<Rightarrow> t_Title t)
      else t_Title t)"
  "t_Description (set_clause_apply args c t) =
     (if c = SetDescription
      then (case arg_str (args ''description'') of Some v \<Rightarrow> Some v | None \<Rightarrow> t_Description t)
      else t_Description t)"
  "t_Status (set_clause_apply args c t) =
     (if c = SetStatus then (case arg_status (args ''status'') of Some v \<Rightarrow> v | None \<Rightarrow> t_Status t)
      else t_Status t)"
  "t_Priority (set_clause_apply args c t) =
     (if c = SetPriority
      then (case arg_priority (args ''priority'') of Some v \<Rightarrow> v | None \<Rightarrow> t_Priority t)
      else t_Priority t)"
  "t_DueDate (set_clause_apply args c t) =
     (if c = SetDueDate
      then (case arg_time (args ''due_date'') of Some v \<Rightarrow> Some v | None \<Rightarrow> t_DueDate t)
      else t_DueDate t)"
  "t_ParentTodoID (set_clause_apply args c t) =
     (if c = SetParentTodoID
      then (case arg_str (args ''parent_todo_id'') of Some v \<Rightarrow> Some v | None \<Rightarrow> t_ParentTodoID t)
      else t_ParentTodoID t)"
  "t_CategoryID (set_clause_apply args c t) =
     (if c = SetCategoryID
      then (case arg_str (args ''category_id'') of Some v \<Rightarrow> Some v | None \<Rightarrow> t_CategoryID t)
      else t_CategoryID t)"
  "t_Metadata (set_clause_apply args c t) =
     (if c = SetMetadata
      then (case arg_meta (args ''metadata'') of Some v \<Rightarrow> Some v | None \<Rightarrow> t_Metadata t)
      else t_Metadata t)"
  "t_CompletedAt (set_clause_apply args c t) =
     (if c = SetCompletedAt
      then (case arg_time (args ''completed_at'') of Some v \<Rightarrow> Some v | None \<Rightarrow> t_CompletedAt t)
      else if c = SetCompletedAtNull then None else t_CompletedAt t)"
  by (cases c; simp split: option.splits)+

lemma foldl_frame:
  "t_ID (foldl (\<lambda>row c. set_clause_apply args c row) t cs) = t_ID t"
  "t_UserID (foldl (\<lambda>row c. set_clause_apply args c row) t cs) = t_UserID t"
  "t_SortOrder (foldl (\<lambda>row c. set_clause_apply args c row) t cs) = t_SortOrder t"
  "t_CreatedAt (foldl (\<lambda>row c. set_clause_apply args c row) t cs) = t_CreatedAt t"
  by (induction cs rule: rev_induct; simp add: apply_frame)+

lemma foldl_Title:
  "t_Title (foldl (\<lambda>row c. set_clause_apply args c row) t cs) =
     (if SetTitle \<in> set cs then (case arg_str (args ''title'') of Some v \<Rightarrow> v | None \<Rightarrow> t_Title t)
      else t_Title t)"
  by (induction cs rule: rev_induct) (auto simp: apply_fields(1) split: option.splits)

lemma foldl_Description:
  "t_Description (foldl (\<lambda>row c. set_clause_apply args c row) t cs) =
     (if SetDescription \<in> set cs
      then (case arg_str (args ''description'') of Some v \<Rightarrow> Some v | None \<Rightarrow> t_Description t)
      else t_Description t)"
  by (induction cs rule: rev_induct) (auto simp: apply_fields(2) split: option.splits)

lemma foldl_Status:
  "t_Status (foldl (\<lambda>row c. set_clause_apply args c row) t cs) =
     (if SetStatus \<in> set cs
      then (case arg_status (args ''status'') of Some v \<Rightarrow> v | None \<Rightarrow> t_Status t)
      else t_Status t)"
  by (induction cs rule: rev_induct) (auto simp: apply_fields(3) split: option.splits)

lemma foldl_Priority:
  "t_Priority (foldl (\<lambda>row c. set_clause_apply args c row) t cs) =
     (if SetPriority \<in> set cs
      then (case arg_priority (args ''priority'') of Some v \<Rightarrow> v | None \<Rightarrow> t_Priority t)
      else t_Priority t)"
  by (induction cs rule: rev_induct) (auto simp: apply_fields(4) split: option.splits)

lemma foldl_DueDate:
  "t_DueDate (foldl (\<lambda>row c. set_clause_apply args c row) t cs) =
     (if SetDueDate \<in> set cs
      then (case arg_time (args ''due_date'') of Some v \<Rightarrow> Some v | None \<Rightarrow> t_DueDate t)
      else t_DueDate t)"
  by (induction cs rule: rev_induct) (auto simp: apply_fields(5) split: option.splits)

lemma foldl_ParentTodoID:
  "t_ParentTodoID (foldl (\<lambda>row c. set_clause_apply args c row) t cs) =
     (if SetParentTodoID \<in> set cs
      then (case arg_str (args ''parent_todo_id'') of Some v \<Rightarrow> Some v | None \<Rightarrow> t_ParentTodoID t)
      else t_ParentTodoID t)"
  by (induction cs rule: rev_induct) (auto simp: apply_fields(6) split: option.splits)

lemma foldl_CategoryID:
  "t_CategoryID (foldl (\<lambda>row c. set_clause_apply args c row) t cs) =
     (if SetCategoryID \<in> set cs
      then (case arg_str (args ''category_id'') of Some v \<Rightarrow> Some v | None \<Rightarrow> t_CategoryID t)
      else t_CategoryID t)"
  by (induction cs rule: rev_induct) (auto simp: apply_fields(7) split: option.splits)

lemma foldl_Metadata:
  "t_Metadata (foldl (\<lambda>row c. set_clause_apply args c row) t cs) =
     (if SetMetadata \<in> set cs
      then (case arg_meta (args ''metadata'') of Some v \<Rightarrow> Some v | None \<Rightarrow> t_Metadata t)
      else t_Metadata t)"
  by (induction cs rule: rev_induct) (auto simp: apply_fields(8) split: option.splits)

lemma foldl_CompletedAt_set:
  "SetCompletedAtNull \<notin> set cs \<Longrightarrow>
   t_CompletedAt (foldl (\<lambda>row c. set_clause_apply args c row) t cs) =
     (if SetCompletedAt \<in> set cs
      then (case arg_time (args ''completed_at'') of Some v \<Rightarrow> Some v | None \<Rightarrow> t_CompletedAt t)
      else t_CompletedAt t)"
  by (induction cs rule: rev_induct) (auto simp: apply_fields(9) split: option.splits)

lemma foldl_CompletedAt_null:
  "SetCompletedAt \<notin> set cs \<Longrightarrow>
   t_CompletedAt (foldl (\<lambda>row c. set_clause_apply args c row) t cs) =
     (if SetCompletedAtNull \<in> set cs then None else t_CompletedAt t)"
  by (induction cs rule: rev_induct) (auto simp: apply_fields(9) split: option.splits)

subsection \<open>UpdateTodo: the row written\<close>

lemma row_scope_UpdateTodo:
  "row_scope (snd (UpdateTodo_build now userID p)) ''todo_id''
     = (\<lambda>t. t_ID t = u_ID p \<and> t_UserID t = userID)"
  by (rule ext) (auto simp: row_scope_def UpdateTodo_args)

lemma touch_fields [simp]:
  "t_ID (touch_updated_at e t) = t_ID t"
  "t_UserID (touch_updated_at e t) = t_UserID t"
  "t_Title (touch_updated_at e t) = t_Title t"
  "t_Description (touch_updated_at e t) = t_Description t"
  "t_Status (touch_updated_at e t) = t_Status t"
  "t_Priority (touch_updated_at e t) = t_Priority t"
  "t_DueDate (touch_updated_at e t) = t_DueDate t"
  "t_CompletedAt (touch_updated_at e t) = t_CompletedAt t"
  "t_ParentTodoID (touch_updated_at e t) = t_ParentTodoID t"
  "t_CategoryID (touch_updated_at e t) = t_CategoryID t"
  "t_Metadata (touch_updated_at e t) = t_Metadata t"
  "t_SortOrder (touch_updated_at e t) = t_SortOrder t"
  "t_CreatedAt (touch_updated_at e t) = t_CreatedAt t"
  "t_UpdatedAt (touch_updated_at e t) = db_NOW e"
  by (simp_all add: touch_updated_at_def)

lemma written_row_frame:
  "t_ID (written_row e userID p t) = t_ID t"
  "t_UserID (written_row e userID p t) = t_UserID t"
  "t_SortOrder (written_row e userID p t) = t_SortOrder t"
  "t_CreatedAt (written_row e userID p t) = t_CreatedAt t"
  "t_UpdatedAt (written_row e userID p t) = db_NOW e"
  by (simp_all add: written_row_def update_row_def foldl_frame)

lemma written_row_Title:
  "t_Title (written_row e userID p t) = (case u_Title p of Some v \<Rightarrow> v | None \<Rightarrow> t_Title t)"
  by (simp add: written_row_def update_row_def foldl_Title UpdateTodo_clauses UpdateTodo_args
      split: option.splits)

lemma written_row_Description:
  "t_Description (written_row e userID p t)
     = (case u_Description p of Some v \<Rightarrow> Some v | None \<Rightarrow> t_Description t)"
  by (simp add: written_row_def update_row_def foldl_Description UpdateTodo_clauses UpdateTodo_args
      split: option.splits)

lemma written_row_Status:
  "t_Status (written_row e userID p t) = (case u_Status p of Some v \<Rightarrow> v | None \<Rightarrow> t_Status t)"
  by (simp add: written_row_def update_row_def foldl_Status UpdateTodo_clauses UpdateTodo_args
      split: option.splits)

lemma written_row_Priority:
  "t_Priority (written_row e userID p t)
     = (case u_Priority p of Some v \<Rightarrow> v | None \<Rightarrow> t_Priority t)"
  by (simp add: written_row_def update_row_def foldl_Priority UpdateTodo_clauses UpdateTodo_args
      split: option.splits)

lemma written_row_DueDate:
  "t_DueDate (written_row e userID p t)
     = (case u_DueDate p of Some v \<Rightarrow> Some v | None \<Rightarrow> t_DueDate t)"
  by (simp add: written_row_def update_row_def foldl_DueDate UpdateTodo_clauses UpdateTodo_args
      split: option.splits)

lemma written_row_ParentTodoID:
  "t_ParentTodoID (written_row e userID p t)
     = (case u_ParentTodoID p of Some v \<Rightarrow> Some v | None \<Rightarrow> t_ParentTodoID t)"
  by (simp add: written_row_def update_row_def foldl_ParentTodoID UpdateTodo_clauses
      UpdateTodo_args split: option.splits)

lemma written_row_CategoryID:
  "t_CategoryID (written_row e userID p t)
     = (case u_CategoryID p of Some v \<Rightarrow> Some v | None \<Rightarrow> t_CategoryID t)"
  by (simp add: written_row_def update_row_def foldl_CategoryID UpdateTodo_clauses
      UpdateTodo_args split: option.splits)

lemma written_row_Metadata:
  "t_Metadata (written_row e userID p t)
     = (case u_Metadata p of Some v \<Rightarrow> Some v | None \<Rightarrow> t_Metadata t)"
  by (simp add: written_row_def update_row_def foldl_Metadata UpdateTodo_clauses
      UpdateTodo_args split: option.splits)

lemma written_row_CompletedAt:
  "t_CompletedAt (written_row e userID p t)
     = (case u_Status p of
          None \<Rightarrow> t_CompletedAt t
        | Some s \<Rightarrow> if s = StatusCompleted then Some (time_Now e) else None)"
proof (cases "u_Status p = Some StatusCompleted")
  case True
  then have "SetCompletedAtNull \<notin> set (fst (UpdateTodo_build (time_Now e) userID p))"
    by (simp add: UpdateTodo_clauses)
  then show ?thesis using True
    by (simp add: written_row_def update_row_def foldl_CompletedAt_set UpdateTodo_clauses
        UpdateTodo_args)
next
  case False
  then have "SetCompletedAt \<notin> set (fst (UpdateTodo_build (time_Now e) userID p))"
    by (simp add: UpdateTodo_clauses)
  then show ?thesis using False
    by (simp add: written_row_def update_row_def foldl_CompletedAt_null UpdateTodo_clauses
        split: option.splits)
qed

lemma UpdateTodo_no_clause:
  "fst (UpdateTodo_build now userID p) = [] \<longleftrightarrow>
     u_Title p = None \<and> u_Description p = None \<and> u_Status p = None \<and> u_Priority p = None
     \<and> u_DueDate p = None \<and> u_ParentTodoID p = None \<and> u_CategoryID p = None
     \<and> u_Metadata p = None"
  (is "?cs = [] \<longleftrightarrow> ?none")
proof
  assume "?cs = []"
  then have no: "x \<notin> set ?cs" for x by simp
  from no [of SetTitle] no [of SetDescription] no [of SetStatus] no [of SetPriority]
    no [of SetDueDate] no [of SetParentTodoID] no [of SetCategoryID] no [of SetMetadata]
  show ?none by (simp add: UpdateTodo_clauses)
next
  assume ?none
  then have "x \<notin> set ?cs" for x by (simp add: UpdateTodo_clauses)
  then show "?cs = []" by (cases ?cs) auto
qed

lemma UpdateTodo_unfold:
  "UpdateTodo d e userID p =
     (if fst (UpdateTodo_build (time_Now e) userID p) = []
      then (Fail (BadRequestError ''no fields to update''), d)
      else case query_err e of
             Some err \<Rightarrow> (Fail (Errorf ''failed to execute query'' err), d)
           | None \<Rightarrow>
              (case rows_err e of
                 Some err \<Rightarrow> (Fail (Errorf ''failed to collect row from table:todos'' err), d)
               | None \<Rightarrow>
                  (case find_todo d userID (u_ID p) of
                     None \<Rightarrow> (Fail (Errorf ''failed to collect row from table:todos'' ErrNoRows), d)
                   | Some t \<Rightarrow>
                       (Return (written_row e userID p t),
                        d\<lparr>todos := map (\<lambda>t. if t_ID t = u_ID p \<and> t_UserID t = userID
                                              then written_row e userID p t else t) (todos d)\<rparr>))))"
proof -
  have none: "map (\<lambda>t. if t_ID t = u_ID p \<and> t_UserID t = userID then f t else t) (todos d) = todos d"
    if "filter (\<lambda>t. t_ID t = u_ID p \<and> t_UserID t = userID) (todos d) = []" for f
    using that by (intro map_idI) (auto simp: filter_empty_conv)
  show ?thesis
    by (auto simp: UpdateTodo_def case_prod_beta Let_def exec_update_def CollectOneRow_def
        find_todo_def row_scope_UpdateTodo written_row_def none
        split: option.splits list.splits)
qed

subsection \<open>CreateTodo: the row inserted\<close>

lemma arg_ptr_arg [simp]:
  "arg_str (Some (ptr_arg ArgStr p)) = p"
  "arg_time (Some (ptr_arg ArgTime s)) = s"
  "arg_meta (Some (ptr_arg ArgMeta m)) = m"
proof -
  show "arg_str (Some (ptr_arg ArgStr p)) = p" by (cases p) (simp_all add: ptr_arg_def)
  show "arg_time (Some (ptr_arg ArgTime s)) = s" by (cases s) (simp_all add: ptr_arg_def)
  show "arg_meta (Some (ptr_arg ArgMeta m)) = m" by (cases m) (simp_all add: ptr_arg_def)
qed

lemma insert_row_CreateTodo:
  "insert_row e (CreateTodo_args userID payload) = Some (created_row e userID payload)"
  by (simp add: insert_row_def CreateTodo_args_def created_row_def Let_def)

lemma CreateTodo_unfold:
  "CreateTodo d e userID payload =
     (case query_err e of
        Some err \<Rightarrow>
          (Fail (Errorf (''failed to execute create todo query for user_id='' @ userID
                   @ '' title='' @ c_Title payload) err), d)
      | None \<Rightarrow>
          (case rows_err e of
             Some err \<Rightarrow>
               (Fail (Errorf (''failed to collect row from table:todos for user_id='' @ userID
                        @ '' title='' @ c_Title payload) err), d)
           | None \<Rightarrow>
               (Return (created_row e userID payload),
                d\<lparr>todos := todos d @ [created_row e userID payload]\<rparr>)))"
  by (simp add: CreateTodo_def insert_row_CreateTodo CollectOneRow_def Let_def
      split: option.splits)

subsection \<open>The completion invariant\<close>

lemma completion_inv_created: "completion_inv (created_row e userID payload)"
  by (simp add: completion_inv_def created_row_def)

lemma completion_inv_written:
  "completion_inv t \<Longrightarrow> completion_inv (written_row e userID p t)"
  by (auto simp: completion_inv_def written_row_Status written_row_CompletedAt
      split: option.splits)

lemma completion_inv_written_status:
  "u_Status p \<noteq> None \<Longrightarrow> completion_inv (written_row e userID p t)"
  by (auto simp: completion_inv_def written_row_Status written_row_CompletedAt
      split: option.splits)

lemma todos_CreateTodo:
  "todos (snd (CreateTodo d e userID payload)) = todos d
   \<or> todos (snd (CreateTodo d e userID payload)) = todos d @ [created_row e userID payload]"
  by (simp add: CreateTodo_unfold split: option.splits)

lemma todos_UpdateTodo:
  "todos (snd (UpdateTodo d e userID p)) = todos d
   \<or> todos (snd (UpdateTodo d e userID p))
       = map (\<lambda>t. if t_ID t = u_ID p \<and> t_UserID t = userID
                   then written_row e userID p t else t) (todos d)"
  by (simp add: UpdateTodo_unfold split: option.splits)

lemma todos_DeleteTodo:
  "set (todos (snd (DeleteTodo d e userID todoID))) \<subseteq> set (todos d)"
  by (auto simp: DeleteTodo_def exec_delete_def Let_def split: option.splits)

lemma reachable_completion_inv:
  "reachable d \<Longrightarrow> t \<in> set (todos d) \<Longrightarrow> completion_inv t"
proof (induction arbitrary: t rule: reachable.induct)
  case (reachable_empty d)
  then show ?case by simp
next
  case (reachable_CreateTodo d e userID payload)
  then show ?case
    using todos_CreateTodo [of d e userID payload]
    by (auto simp: completion_inv_created)
next
  case (reachable_UpdateTodo d e userID upayload)
  then show ?case
    using todos_UpdateTodo [of d e userID upayload]
    by (auto simp: completion_inv_written split: if_splits)
next
  case (reachable_DeleteTodo d e userID todoID)
  then show ?case
    using todos_DeleteTodo [of d e userID todoID] by blast
qed

lemma find_todo_in: "find_todo d userID todoID = Some t \<Longrightarrow> t \<in> set (todos d)"
  unfolding find_todo_def
  by (auto split: list.splits simp: filter_eq_Cons_iff)

lemma find_todo_scope:
  "find_todo d userID todoID = Some t \<Longrightarrow> t_ID t = todoID \<and> t_UserID t = userID"
  unfolding find_todo_def
  by (auto split: list.splits simp: filter_eq_Cons_iff)

subsection \<open>Rows out of the caller's scope\<close>

lemma row_scope_by_id:
  "row_scope [k \<mapsto> ArgStr todoID, ''user_id'' \<mapsto> ArgStr userID] k
     = (\<lambda>t. t_ID t = todoID \<and> t_UserID t = userID)" if "k \<noteq> ''user_id''"
  using that by (intro ext) (auto simp: row_scope_def)

lemma other_owner_no_row:
  assumes "t \<in> set (todos d)" and "primary_key d" and "t_UserID t \<noteq> ownerB"
  shows "filter (\<lambda>x. t_ID x = t_ID t \<and> t_UserID x = ownerB) (todos d) = []"
proof -
  have "x = t" if "x \<in> set (todos d)" and "t_ID x = t_ID t" for x
    using assms(1,2) that
    by (auto simp: primary_key_def distinct_map dest: inj_onD)
  with assms(3) show ?thesis
    by (auto simp: filter_empty_conv)
qed

lemma find_todo_other_owner:
  assumes "t \<in> set (todos d)" and "primary_key d" and "t_UserID t \<noteq> ownerB"
  shows "find_todo d ownerB (t_ID t) = None"
  using other_owner_no_row [OF assms] by (simp add: find_todo_def)

lemma no_update_iff:
  "fst (UpdateTodo_build now userID p) = [] \<longleftrightarrow> p = no_update (u_ID p)"
  by (cases p) (simp add: UpdateTodo_no_clause no_update_def)

subsection \<open>GetTodos: conditions and arguments\<close>

lemma clauses_parent_block:
  "x \<in> set (fst (case p of Some v \<Rightarrow> bind_arg k (f v) (append_clause c st)
                          | None \<Rightarrow> append_clause c' st))
     \<longleftrightarrow> x \<in> set (fst st) \<or> (p \<noteq> None \<and> x = c) \<or> (p = None \<and> x = c')"
  by (cases p) auto

lemma args_parent_block:
  "snd (case p of Some v \<Rightarrow> bind_arg k (f v) (append_clause c st)
                | None \<Rightarrow> append_clause c' st) k'
     = (if k' = k \<and> p \<noteq> None then map_option f p else snd st k')"
  by (cases p) auto

lemma clauses_overdue_block:
  "x \<in> set (fst (if b then append_clause c st else st)) \<longleftrightarrow> x \<in> set (fst st) \<or> (b \<and> x = c)"
  by auto

lemma args_overdue_block:
  "snd (if b then append_clause c st else (st :: 'c builder)) = snd st"
  by auto

lemma clauses_completed_block:
  "x \<in> set (fst (if_present p (\<lambda>v st. if v then append_clause c st
                                         else append_clause c' st) st))
     \<longleftrightarrow> x \<in> set (fst st) \<or> (p = Some True \<and> x = c) \<or> (p = Some False \<and> x = c')"
  by (cases p) (auto simp: if_present_def)

lemma args_completed_block:
  "snd (if_present p (\<lambda>v st. if v then append_clause c st else append_clause c' st) st)
     = snd (st :: 'c builder)"
  by (cases p) (auto simp: if_present_def)

lemma GetTodos_conditions:
  "x \<in> set (fst (GetTodos_where userID q)) \<longleftrightarrow>
     x = CondUserID
     \<or> (q_Status q \<noteq> None \<and> x = CondStatus)
     \<or> (q_Priority q \<noteq> None \<and> x = CondPriority)
     \<or> (q_CategoryID q \<noteq> None \<and> x = CondCategoryID)
     \<or> (q_ParentTodoID q \<noteq> None \<and> x = CondParentTodoID)
     \<or> (q_ParentTodoID q = None \<and> x = CondParentIsNull)
     \<or> (q_DueFrom q \<noteq> None \<and> x = CondDueFrom)
     \<or> (q_DueTo q \<noteq> None \<and> x = CondDueTo)
     \<or> (q_Overdue q = Some True \<and> x = CondOverdue)
     \<or> (q_Completed q = Some True \<and> x = CondCompleted)
     \<or> (q_Completed q = Some False \<and> x = CondNotCompleted)
     \<or> (q_Search q \<noteq> None \<and> x = CondSearch)"
  unfolding GetTodos_where_def Let_def
  by (simp add: clauses_if_present_bind clauses_parent_block clauses_overdue_block
      clauses_completed_block disj_commute disj_left_commute)

lemma GetTodos_where_args:
  "snd (GetTodos_where userID q) ''user_id'' = Some (ArgStr userID)"
  "snd (GetTodos_where userID q) ''status'' = map_option ArgStatus (q_Status q)"
  "snd (GetTodos_where userID q) ''priority'' = map_option ArgPriority (q_Priority q)"
  "snd (GetTodos_where userID q) ''category_id'' = map_option ArgStr (q_CategoryID q)"
  "snd (GetTodos_where userID q) ''parent_todo_id'' = map_option ArgStr (q_ParentTodoID q)"
  "snd (GetTodos_where userID q) ''due_from'' = map_option ArgTime (q_DueFrom q)"
  "snd (GetTodos_where userID q) ''due_to'' = map_option ArgTime (q_DueTo q)"
  "snd (GetTodos_where userID q) ''search''
     = map_option (\<lambda>v. ArgStr (''%'' @ v @ ''%'')) (q_Search q)"
  "snd (GetTodos_where userID q) ''limit'' = None"
  "snd (GetTodos_where userID q) ''offset'' = None"
  unfolding GetTodos_where_def Let_def
  by (simp_all add: args_if_present_bind args_parent_block args_overdue_block
      args_completed_block)

lemma cond_holds_page_args:
  "cond_holds (args(''limit'' \<mapsto> a, ''offset'' \<mapsto> b)) now t = cond_holds args now t"
proof
  fix c
  show "cond_holds (args(''limit'' \<mapsto> a, ''offset'' \<mapsto> b)) now t c = cond_holds args now t c"
    by (cases c; simp split: option.splits)
qed

lemma matching_rows_page_args:
  "matching_rows d now conds (args(''limit'' \<mapsto> a, ''offset'' \<mapsto> b))
     = matching_rows d now conds args"
  by (simp add: matching_rows_def cond_holds_page_args)

lemma arg_str_search [simp]:
  "arg_str (map_option (\<lambda>v. ArgStr (f v)) p) = map_option f p"
  by (cases p) simp_all

lemma all_conditions:
  "list_all h (fst (GetTodos_where userID q)) \<longleftrightarrow>
      h CondUserID
      \<and> (q_Status q \<noteq> None \<longrightarrow> h CondStatus)
      \<and> (q_Priority q \<noteq> None \<longrightarrow> h CondPriority)
      \<and> (q_CategoryID q \<noteq> None \<longrightarrow> h CondCategoryID)
      \<and> ((q_ParentTodoID q \<noteq> None \<longrightarrow> h CondParentTodoID)
         \<and> (q_ParentTodoID q = None \<longrightarrow> h CondParentIsNull))
      \<and> (q_DueFrom q \<noteq> None \<longrightarrow> h CondDueFrom)
      \<and> (q_DueTo q \<noteq> None \<longrightarrow> h CondDueTo)
      \<and> (q_Overdue q = Some True \<longrightarrow> h CondOverdue)
      \<and> ((q_Completed q = Some True \<longrightarrow> h CondCompleted)
         \<and> (q_Completed q = Some False \<longrightarrow> h CondNotCompleted))
      \<and> (q_Search q \<noteq> None \<longrightarrow> h CondSearch)"
  by (simp add: list_all_iff Ball_def GetTodos_conditions imp_disjL all_conj_distrib
      conj_commute conj_left_commute)

lemma holds_all_conditions:
  "list_all (cond_holds (snd (GetTodos_where userID q)) now t) (fst (GetTodos_where userID q))
     \<longleftrightarrow> query_matches userID now q t"
proof -
  let ?W = "GetTodos_where userID q"
  let ?h = "cond_holds (snd ?W) now t"
  have e1: "?h CondUserID \<longleftrightarrow> t_UserID t = userID"
    by (auto simp: GetTodos_where_args)
  have e2: "(q_Status q \<noteq> None \<longrightarrow> ?h CondStatus)
      \<longleftrightarrow> (case q_Status q of None \<Rightarrow> True | Some v \<Rightarrow> t_Status t = v)"
    by (auto simp: GetTodos_where_args split: option.splits)
  have e3: "(q_Priority q \<noteq> None \<longrightarrow> ?h CondPriority)
      \<longleftrightarrow> (case q_Priority q of None \<Rightarrow> True | Some v \<Rightarrow> t_Priority t = v)"
    by (auto simp: GetTodos_where_args split: option.splits)
  have e4: "(q_CategoryID q \<noteq> None \<longrightarrow> ?h CondCategoryID)
      \<longleftrightarrow> (case q_CategoryID q of None \<Rightarrow> True | Some v \<Rightarrow> t_CategoryID t = Some v)"
    by (auto simp: GetTodos_where_args split: option.splits)
  have e5: "(q_ParentTodoID q \<noteq> None \<longrightarrow> ?h CondParentTodoID)
        \<and> (q_ParentTodoID q = None \<longrightarrow> ?h CondParentIsNull)
      \<longleftrightarrow> t_ParentTodoID t = q_ParentTodoID q"
    by (cases "q_ParentTodoID q"; cases "t_ParentTodoID t")
      (auto simp: GetTodos_where_args)
  have e6: "(q_DueFrom q \<noteq> None \<longrightarrow> ?h CondDueFrom)
      \<longleftrightarrow> (case q_DueFrom q of None \<Rightarrow> True
          | Some v \<Rightarrow> (case t_DueDate t of None \<Rightarrow> False | Some due \<Rightarrow> v \<le> due))"
    by (auto simp: GetTodos_where_args split: option.splits)
  have e7: "(q_DueTo q \<noteq> None \<longrightarrow> ?h CondDueTo)
      \<longleftrightarrow> (case q_DueTo q of None \<Rightarrow> True
          | Some v \<Rightarrow> (case t_DueDate t of None \<Rightarrow> False | Some due \<Rightarrow> due \<le> v))"
    by (auto simp: GetTodos_where_args split: option.splits)
  have e8: "(q_Overdue q = Some True \<longrightarrow> ?h CondOverdue)
      \<longleftrightarrow> (if q_Overdue q = Some True
          then (case t_DueDate t of None \<Rightarrow> False | Some due \<Rightarrow> due < now)
               \<and> t_Status t \<noteq> StatusCompleted
          else True)"
    by simp
  have e9: "(q_Completed q = Some True \<longrightarrow> ?h CondCompleted)
        \<and> (q_Completed q = Some False \<longrightarrow> ?h CondNotCompleted)
      \<longleftrightarrow> (case q_Completed q of None \<Rightarrow> True
          | Some v \<Rightarrow> (t_Status t = StatusCompleted) = v)"
    by (auto split: option.splits)
  have e10: "(q_Search q \<noteq> None \<longrightarrow> ?h CondSearch)
      \<longleftrightarrow> (case q_Search q of None \<Rightarrow> True
          | Some v \<Rightarrow> search_matches (''%'' @ v @ ''%'') t)"
    by (auto simp: GetTodos_where_args search_matches_def split: option.splits)
  show ?thesis
    unfolding all_conditions [of ?h] query_matches_def e1 e2 e3 e4 e5 e6 e7 e8 e9 e10 ..
qed

lemma GetTodos_matching_eq:
  "GetTodos_matching d e userID q = filter (query_matches userID (db_NOW e) q) (todos d)"
  by (simp add: GetTodos_matching_def matching_rows_def holds_all_conditions)

subsection \<open>GetTodos: the call unfolded\<close>

lemma page_rows_page_args:
  "page_rows (GetTodos_page_args userID q limit page) rows =
     (if sint limit < 0 then Inl (ErrStore ''LIMIT must not be negative'')
      else if sint ((page - 1) * limit) < 0 then Inl (ErrStore ''OFFSET must not be negative'')
      else Inr (take (nat (sint limit)) (drop (nat (sint ((page - 1) * limit))) rows)))"
  by (simp add: page_rows_def GetTodos_page_args_def)

lemma GetTodos_unfold:
  "GetTodos d e userID q =
    (case count_err e of
       Some err \<Rightarrow>
         (Fail (Errorf (''failed to get total count for todos user_id='' @ userID) err),
          [(GetTodos_countStmt userID q, snd (GetTodos_where userID q))])
     | None \<Rightarrow>
        (case q_Limit q of
           None \<Rightarrow> (Panic nil_dereference,
                      [(GetTodos_countStmt userID q, snd (GetTodos_where userID q))])
         | Some limit \<Rightarrow>
            (case q_Page q of
               None \<Rightarrow> (Panic nil_dereference,
                          [(GetTodos_countStmt userID q, snd (GetTodos_where userID q))])
             | Some page \<Rightarrow>
                (case (case query_err e of
                         Some err \<Rightarrow> Inl err
                       | None \<Rightarrow> exec_select d (db_NOW e) (fst (GetTodos_where userID q))
                                   (GetTodos_page_args userID q limit page) (GetTodos_order q)) of
                   Inl err \<Rightarrow>
                     (Fail (Errorf (''failed to execute get todos query for user_id='' @ userID)
                        err), GetTodos_sent userID q limit page)
                 | Inr rows \<Rightarrow>
                    (case (case rows_err e of Some err \<Rightarrow> Inl err | None \<Rightarrow> rows) of
                       Inl err \<Rightarrow>
                         (if errors_Is err ErrNoRows then Return (GetTodos_empty page limit)
                          else Fail (Errorf
                                 (''failed to collect rows from table:todos for user_id=''
                                    @ userID) err),
                          GetTodos_sent userID q limit page)
                     | Inr todoItems \<Rightarrow>
                         (if limit = 0 then Panic divide_by_zero
                          else Return
                            \<lparr>r_Data = todoItems, r_Page = page, r_Limit = limit,
                             r_Total = of_nat (length (GetTodos_matching d e userID q)),
                             r_TotalPages =
                               go_div (of_nat (length (GetTodos_matching d e userID q))
                                        + limit - 1) limit\<rparr>,
                          GetTodos_sent userID q limit page))))))"
  by (simp add: GetTodos_def case_prod_beta Let_def GetTodos_sent_def GetTodos_countStmt_def
      GetTodos_stmt_def GetTodos_page_args_def GetTodos_matching_def GetTodos_empty_def
      split: option.splits sum.splits)

lemma exec_select_page_args:
  "exec_select d (db_NOW e) (fst (GetTodos_where userID q))
      (GetTodos_page_args userID q limit page) ord =
    (case order_column (fst ord) of
       None \<Rightarrow> Inl (ErrStore (''column t.'' @ fst ord @ '' does not exist''))
     | Some key \<Rightarrow>
        Inr (if sint limit < 0 then Inl (ErrStore ''LIMIT must not be negative'')
             else if sint ((page - 1) * limit) < 0
             then Inl (ErrStore ''OFFSET must not be negative'')
             else Inr (map (populate d (GetTodos_page_args userID q limit page))
                    (take (nat (sint limit)) (drop (nat (sint ((page - 1) * limit)))
                       (order_rows key (snd ord) (GetTodos_matching d e userID q)))))))"
proof -
  have "matching_rows d (db_NOW e) (fst (GetTodos_where userID q))
          (GetTodos_page_args userID q limit page) = GetTodos_matching d e userID q"
    by (simp add: GetTodos_page_args_def GetTodos_matching_def matching_rows_page_args)
  then show ?thesis
    by (simp add: exec_select_def page_rows_page_args split: option.splits)
qed

lemma set_order_rows [simp]: "set (order_rows key desc rows) = set rows"
  by (simp add: order_rows_def)

lemma length_order_rows [simp]: "length (order_rows key desc rows) = length rows"
  by (simp add: order_rows_def)

lemma p_Todo_populate [simp]: "p_Todo (populate d args t) = t"
  by (simp add: populate_def Let_def)

lemma exec_select_rows:
  assumes "exec_select d (db_NOW e) (fst (GetTodos_where userID q))
      (GetTodos_page_args userID q limit page) ord = Inr (Inr rows)"
    and "pt \<in> set rows"
  shows "p_Todo pt \<in> set (GetTodos_matching d e userID q)"
proof -
  from assms(1) obtain key where
    "rows = map (populate d (GetTodos_page_args userID q limit page))
       (take (nat (sint limit)) (drop (nat (sint ((page - 1) * limit)))
          (order_rows key (snd ord) (GetTodos_matching d e userID q))))"
    by (auto simp: exec_select_page_args split: option.splits if_splits)
  with assms(2) obtain t where "pt = populate d (GetTodos_page_args userID q limit page) t"
    and "t \<in> set (take (nat (sint limit)) (drop (nat (sint ((page - 1) * limit)))
          (order_rows key (snd ord) (GetTodos_matching d e userID q))))"
    by auto
  then show ?thesis
    by (auto dest!: in_set_takeD in_set_dropD)
qed

lemma GetTodos_Data:
  assumes "fst (GetTodos d e userID q) = Return resp" and "pt \<in> set (r_Data resp)"
  shows "p_Todo pt \<in> set (GetTodos_matching d e userID q)"
  using assms
  by (auto simp: GetTodos_unfold GetTodos_empty_def
      split: option.splits sum.splits if_splits dest: exec_select_rows)

subsection \<open>Go's integers\<close>

lemma sint_word_of_int_64:
  "- (2 ^ 63) \<le> k \<Longrightarrow> k < 2 ^ 63 \<Longrightarrow> sint (word_of_int k :: go_int) = k"
  by (simp add: sint_sbintrunc' signed_take_bit_int_eq_self)

lemma sint_offset:
  fixes page limit :: go_int
  assumes "1 \<le> sint page" and "1 \<le> sint limit" and "(sint page - 1) * sint limit < 2 ^ 63"
  shows "sint ((page - 1) * limit) = (sint page - 1) * sint limit"
proof -
  have "(page - 1) * limit = word_of_int ((sint page - 1) * sint limit)"
    by simp
  moreover have "0 \<le> (sint page - 1) * sint limit"
    using assms(1,2) by simp
  ultimately show ?thesis
    using assms(3) by (simp only: sint_word_of_int_64)
qed

lemma sint_total:
  "int n < 2 ^ 63 \<Longrightarrow> sint (of_nat n :: go_int) = int n"
proof -
  assume "int n < 2 ^ 63"
  moreover have "(of_nat n :: go_int) = word_of_int (int n)" by simp
  ultimately show ?thesis by (simp only: sint_word_of_int_64)
qed

lemma sdiv_nonneg_pos: "0 \<le> k \<Longrightarrow> 0 < l \<Longrightarrow> k sdiv l = k div (l :: int)"
  by (cases "k = 0") (simp_all add: signed_divide_int_def)

lemma sint_total_pages:
  fixes limit :: go_int
  assumes "1 \<le> sint limit" and "int n + sint limit - 1 < 2 ^ 63"
  shows "sint (go_div (of_nat n + limit - 1) limit) = (int n + sint limit - 1) div sint limit"
proof -
  let ?m = "int n + sint limit - 1"
  have "(of_nat n + limit - 1 :: go_int) = word_of_int ?m" by simp
  moreover have m0: "0 \<le> ?m" using assms(1) by simp
  ultimately have m: "sint (of_nat n + limit - 1 :: go_int) = ?m"
    using assms(2) by (simp only: sint_word_of_int_64)
  have q0: "0 \<le> ?m div sint limit"
    using m0 assms(1) by (simp add: pos_imp_zdiv_nonneg_iff)
  have "?m div sint limit \<le> ?m"
    using zdiv_mono2 [of ?m 1 "sint limit"] m0 assms(1) by simp
  with assms(2) have q1: "?m div sint limit < 2 ^ 63" by simp
  have "go_div (of_nat n + limit - 1) limit = word_of_int (?m div sint limit)"
    unfolding go_div_def m using m0 assms(1) by (simp add: sdiv_nonneg_pos)
  then show ?thesis
    using q0 q1 by (simp only: sint_word_of_int_64)
qed

lemma ceiling_div:
  fixes n l :: int
  assumes "0 \<le> n" and "1 \<le> l"
  shows "((n + l - 1) div l - 1) * l < n \<and> n \<le> (n + l - 1) div l * l"
proof -
  define q where "q = (n + l - 1) div l"
  define r where "r = (n + l - 1) mod l"
  have "q * l + r = n + l - 1" by (simp add: q_def r_def)
  then have ql: "q * l = n + l - 1 - r" by simp
  have "0 \<le> r" and "r < l"
    using assms(2) by (simp_all add: r_def)
  then have "(q - 1) * l < n \<and> n \<le> q * l"
    unfolding left_diff_distrib ql by simp
  then show ?thesis by (simp add: q_def)
qed

subsection \<open>GetTodos: the page returned\<close>

lemma populate_page_args:
  "populate d (GetTodos_page_args userID q limit page) = populate d [''user_id'' \<mapsto> ArgStr userID]"
  by (rule ext) (simp add: populate_def GetTodos_page_args_def GetTodos_where_args)

lemma GetTodos_ok:
  assumes "store_ok e" and "q_Limit q = Some limit" and "q_Page q = Some page"
    and "limit \<noteq> 0" and "0 \<le> sint limit" and "0 \<le> sint ((page - 1) * limit)"
    and "order_column (fst (GetTodos_order q)) = Some key"
  shows "GetTodos d e userID q =
    (Return
      \<lparr>r_Data = map (populate d [''user_id'' \<mapsto> ArgStr userID])
                  (take (nat (sint limit)) (drop (nat (sint ((page - 1) * limit)))
                     (order_rows key (snd (GetTodos_order q))
                        (GetTodos_matching d e userID q)))),
       r_Page = page, r_Limit = limit,
       r_Total = of_nat (length (GetTodos_matching d e userID q)),
       r_TotalPages = go_div (of_nat (length (GetTodos_matching d e userID q)) + limit - 1)
                        limit\<rparr>,
     GetTodos_sent userID q limit page)"
  using assms
  by (simp add: GetTodos_unfold exec_select_page_args store_ok_def populate_page_args)

lemma store_ok_env1: "store_ok env1"
  by (simp add: store_ok_def env1_def)

lemma matching_db1_roots:
  "q_Status q = None \<Longrightarrow> q_Priority q = None \<Longrightarrow> q_CategoryID q = None \<Longrightarrow>
   q_ParentTodoID q = None \<Longrightarrow> q_DueFrom q = None \<Longrightarrow> q_DueTo q = None \<Longrightarrow>
   q_Overdue q = None \<Longrightarrow> q_Completed q = None \<Longrightarrow> q_Search q = None \<Longrightarrow>
   GetTodos_matching db1 env1 ''alice'' q = [todo1]"
  by (simp add: GetTodos_matching_eq query_matches_def db1_def todo1_def todo2_def)

lemma matching_db1_children:
  "GetTodos_matching db1 env1 ''alice'' (query1\<lparr>q_ParentTodoID := Some ''t1''\<rparr>) = [todo2]"
  by (simp add: GetTodos_matching_eq query_matches_def db1_def todo1_def todo2_def query1_def)

lemma matching_db2_roots:
  "q_Status q = None \<Longrightarrow> q_Priority q = None \<Longrightarrow> q_CategoryID q = None \<Longrightarrow>
   q_ParentTodoID q = None \<Longrightarrow> q_DueFrom q = None \<Longrightarrow> q_DueTo q = None \<Longrightarrow>
   q_Overdue q = None \<Longrightarrow> q_Completed q = None \<Longrightarrow> q_Search q = None \<Longrightarrow>
   GetTodos_matching db2 env1 ''alice'' q = [todo1, todo3]"
  by (simp add: GetTodos_matching_eq query_matches_def db2_def todo1_def todo3_def)

lemma order_default: "order_column ''created_at'' = Some (\<lambda>t. key_time (Some (t_CreatedAt t)))"
  by (simp add: order_column_def)

lemma query1_fields:
  "q_Limit query1 = Some 20" "q_Page query1 = Some 1"
  "GetTodos_order query1 = (''created_at'', True)"
  "q_Limit (query1\<lparr>q_ParentTodoID := p\<rparr>) = Some 20"
  "q_Page (query1\<lparr>q_ParentTodoID := p\<rparr>) = Some 1"
  "GetTodos_order (query1\<lparr>q_ParentTodoID := p\<rparr>) = (''created_at'', True)"
  by (simp_all add: query1_def GetTodos_order_def)

lemma small_page:
  "(20::go_int) \<noteq> 0" "0 \<le> sint (20::go_int)" "0 \<le> sint (((1::go_int) - 1) * 20)"
  by simp_all

lemma GetTodos_db1_query1:
  "GetTodos db1 env1 ''alice'' query1 =
     (Return \<lparr>r_Data = [populate db1 [''user_id'' \<mapsto> ArgStr ''alice''] todo1],
               r_Page = 1, r_Limit = 20, r_Total = 1, r_TotalPages = 1\<rparr>,
      GetTodos_sent ''alice'' query1 20 1)"
proof -
  have m: "GetTodos_matching db1 env1 ''alice'' query1 = [todo1]"
    by (rule matching_db1_roots) (simp_all add: query1_def)
  have o: "order_column (fst (GetTodos_order query1)) = Some (\<lambda>t. key_time (Some (t_CreatedAt t)))"
    by (simp add: query1_fields order_default)
  show ?thesis
    unfolding GetTodos_ok [OF store_ok_env1 query1_fields(1,2) small_page o] m
    by (simp add: query1_fields order_rows_def go_div_def)
qed

lemma GetTodos_db1_children:
  "GetTodos db1 env1 ''alice'' (query1\<lparr>q_ParentTodoID := Some ''t1''\<rparr>) =
     (Return \<lparr>r_Data = [populate db1 [''user_id'' \<mapsto> ArgStr ''alice''] todo2],
               r_Page = 1, r_Limit = 20, r_Total = 1, r_TotalPages = 1\<rparr>,
      GetTodos_sent ''alice'' (query1\<lparr>q_ParentTodoID := Some ''t1''\<rparr>) 20 1)"
proof -
  let ?q = "query1\<lparr>q_ParentTodoID := Some ''t1''\<rparr>"
  have o: "order_column (fst (GetTodos_order ?q)) = Some (\<lambda>t. key_time (Some (t_CreatedAt t)))"
    by (simp add: query1_fields order_default)
  show ?thesis
    unfolding GetTodos_ok [OF store_ok_env1 query1_fields(4,5) small_page o] matching_db1_children
    by (simp add: query1_fields order_rows_def go_div_def)
qed

lemma GetTodos_zero_panic:
  assumes "q_Limit q = Some 0" and "q_Page q = Some page" and "store_ok e"
    and "order_column (fst (GetTodos_order q)) = Some key"
  shows "GetTodos d e userID q = (Panic divide_by_zero, GetTodos_sent userID q 0 page)"
  using assms
  by (simp add: GetTodos_unfold exec_select_page_args store_ok_def)

lemma GetTodos_statements:
  assumes "count_err e = None" and "q_Limit q = Some limit" and "q_Page q = Some page"
  shows "snd (GetTodos d e userID q) = GetTodos_sent userID q limit page"
  using assms
  by (simp add: GetTodos_unfold split: option.splits sum.splits)

lemma allow_list_columns: "s \<in> set sort_allow_list \<Longrightarrow> order_column s \<noteq> None"
  by (auto simp: sort_allow_list_def order_column_def)

lemma where_root_only:
  "q_Status q = None \<Longrightarrow> q_Priority q = None \<Longrightarrow> q_CategoryID q = None \<Longrightarrow>
   q_ParentTodoID q = None \<Longrightarrow> q_DueFrom q = None \<Longrightarrow> q_DueTo q = None \<Longrightarrow>
   q_Overdue q = None \<Longrightarrow> q_Completed q = None \<Longrightarrow> q_Search q = None \<Longrightarrow>
   where_sql (fst (GetTodos_where userID q))
     = '' WHERE t.user_id = @user_id AND t.parent_todo_id IS NULL''"
  by (simp add: GetTodos_where_def if_present_def append_clause_def where_sql_def)

lemma GetTodos_db1_sort_id:
  "GetTodos db1 env1 ''alice'' (query1\<lparr>q_Sort := Some ''id''\<rparr>) =
     (Return \<lparr>r_Data = [populate db1 [''user_id'' \<mapsto> ArgStr ''alice''] todo1],
               r_Page = 1, r_Limit = 20, r_Total = 1, r_TotalPages = 1\<rparr>,
      GetTodos_sent ''alice'' (query1\<lparr>q_Sort := Some ''id''\<rparr>) 20 1)"
proof -
  let ?q = "query1\<lparr>q_Sort := Some ''id''\<rparr>"
  have m: "GetTodos_matching db1 env1 ''alice'' ?q = [todo1]"
    by (rule matching_db1_roots) (simp_all add: query1_def)
  have f: "q_Limit ?q = Some 20" "q_Page ?q = Some 1" "GetTodos_order ?q = (''id'', False)"
    by (simp_all add: query1_def GetTodos_order_def)
  have o: "order_column (fst (GetTodos_order ?q)) = Some (\<lambda>t. key_text (Some (t_ID t)))"
    by (simp add: f order_column_def)
  show ?thesis
    unfolding GetTodos_ok [OF store_ok_env1 f(1,2) small_page o] m
    by (simp add: f order_rows_def go_div_def)
qed

lemma map_p_Todo_populate [simp]: "map (p_Todo \<circ> populate d args) rows = rows"
  by (induction rows) simp_all

lemma page_args_offset:
  "GetTodos_page_args userID q limit page ''offset'' = Some (ArgInt ((page - 1) * limit))"
  "GetTodos_page_args userID q limit page ''limit'' = Some (ArgInt limit)"
  by (simp_all add: GetTodos_page_args_def)

lemma GetTodos_db1_wrapped_offset:
  "GetTodos db1 env1 ''alice'' (query1\<lparr>q_Page := Some 4611686018427387905, q_Limit := Some 4\<rparr>) =
     (Return \<lparr>r_Data = [populate db1 [''user_id'' \<mapsto> ArgStr ''alice''] todo1],
               r_Page = 4611686018427387905, r_Limit = 4, r_Total = 1, r_TotalPages = 1\<rparr>,
      GetTodos_sent ''alice'' (query1\<lparr>q_Page := Some 4611686018427387905, q_Limit := Some 4\<rparr>)
        4 4611686018427387905)"
proof -
  let ?q = "query1\<lparr>q_Page := Some 4611686018427387905, q_Limit := Some 4\<rparr>"
  have m: "GetTodos_matching db1 env1 ''alice'' ?q = [todo1]"
    by (rule matching_db1_roots) (simp_all add: query1_def)
  have f: "q_Limit ?q = Some 4" "q_Page ?q = Some 4611686018427387905"
    "GetTodos_order ?q = (''created_at'', True)"
    by (simp_all add: query1_def GetTodos_order_def)
  have o: "order_column (fst (GetTodos_order ?q)) = Some (\<lambda>t. key_time (Some (t_CreatedAt t)))"
    by (simp add: f order_default)
  have w: "((4611686018427387905::go_int) - 1) * 4 = 0" by simp
  have p: "(4::go_int) \<noteq> 0" "0 \<le> sint (4::go_int)"
    "0 \<le> sint (((4611686018427387905::go_int) - 1) * 4)"
    unfolding w by simp_all
  show ?thesis
    unfolding GetTodos_ok [OF store_ok_env1 f(1,2) p o] m w
    by (simp add: f order_rows_def go_div_def)
qed

lemma GetTodos_db2_max_limit:
  "GetTodos db2 env1 ''alice'' (query1\<lparr>q_Limit := Some 9223372036854775807\<rparr>) =
     (Return \<lparr>r_Data = [populate db2 [''user_id'' \<mapsto> ArgStr ''alice''] todo3,
                         populate db2 [''user_id'' \<mapsto> ArgStr ''alice''] todo1],
               r_Page = 1, r_Limit = 9223372036854775807, r_Total = 2, r_TotalPages = - 1\<rparr>,
      GetTodos_sent ''alice'' (query1\<lparr>q_Limit := Some 9223372036854775807\<rparr>)
        9223372036854775807 1)"
proof -
  let ?q = "query1\<lparr>q_Limit := Some 9223372036854775807\<rparr>"
  have m: "GetTodos_matching db2 env1 ''alice'' ?q = [todo1, todo3]"
    by (rule matching_db2_roots) (simp_all add: query1_def)
  have f: "q_Limit ?q = Some 9223372036854775807" "q_Page ?q = Some 1"
    "GetTodos_order ?q = (''created_at'', True)"
    by (simp_all add: query1_def GetTodos_order_def)
  have o: "order_column (fst (GetTodos_order ?q)) = Some (\<lambda>t. key_time (Some (t_CreatedAt t)))"
    by (simp add: f order_default)
  have p: "(9223372036854775807::go_int) \<noteq> 0" "0 \<le> sint (9223372036854775807::go_int)"
    "0 \<le> sint (((1::go_int) - 1) * 9223372036854775807)"
    by simp_all
  have s: "key_time (Some (t_CreatedAt todo1)) \<le> key_time (Some (t_CreatedAt todo3))"
    by (simp add: key_time_def todo1_def todo3_def less_eq_prod_def)
  have g: "go_div 9223372036854775808 9223372036854775807 = - 1"
    by (simp add: go_div_def signed_divide_int_def)
  show ?thesis
    unfolding GetTodos_ok [OF store_ok_env1 f(1,2) p o] m
    by (simp add: f order_rows_def s g)
qed

subsection \<open>LIKE patterns without special characters\<close>







subsection \<open>GetTodos: the search term\<close>























subsection \<open>UpdateTodo: the statement text for a status\<close>

lemma UpdateTodo_stmt_completed:
  "UpdateTodo_stmt (fst (UpdateTodo_build now userID
       ((no_update todoID)\<lparr>u_Status := Some StatusCompleted\<rparr>)))
     = ''UPDATE todos SET status = @status, completed_at = @completed_at''
         @ '' WHERE id = @todo_id AND user_id = @user_id RETURNING *''"
  by (simp add: UpdateTodo_stmt_def UpdateTodo_build_def if_present_def set_status_def
      no_update_def append_clause_def bind_arg_def)

lemma UpdateTodo_stmt_not_completed:
  "v \<noteq> StatusCompleted \<Longrightarrow>
   UpdateTodo_stmt (fst (UpdateTodo_build now userID ((no_update todoID)\<lparr>u_Status := Some v\<rparr>)))
     = ''UPDATE todos SET status = @status, completed_at = NULL''
         @ '' WHERE id = @todo_id AND user_id = @user_id RETURNING *''"
  by (simp add: UpdateTodo_stmt_def UpdateTodo_build_def if_present_def set_status_def
      no_update_def append_clause_def bind_arg_def)

section \<open>The claims\<close>

text \<open>
  C3.  An update payload whose optional fields are all absent is rejected with the bad
  request error "no fields to update", for every owner, every identifier (whether or not a
  todo has it), every store and every state of the pool; the store is returned as it was.
\<close>

theorem UpdateTodo_no_fields:
  "UpdateTodo d e userID
     \<lparr>u_ID = todoID, u_Title = None, u_Description = None, u_Status = None, u_Priority = None,
      u_DueDate = None, u_ParentTodoID = None, u_CategoryID = None, u_Metadata = None\<rparr>
   = (Fail (BadRequestError ''no fields to update''), d)"
  by (simp add: UpdateTodo_unfold UpdateTodo_no_clause)

theorem UpdateTodo_no_fields_witness:
  "UpdateTodo db1 env1 ''alice''
     \<lparr>u_ID = ''t1'', u_Title = None, u_Description = None, u_Status = None, u_Priority = None,
      u_DueDate = None, u_ParentTodoID = None, u_CategoryID = None, u_Metadata = None\<rparr>
   = (Fail (BadRequestError ''no fields to update''), db1)
   \<and> UpdateTodo db1 env1 ''alice''
     \<lparr>u_ID = ''t404'', u_Title = None, u_Description = None, u_Status = None, u_Priority = None,
      u_DueDate = None, u_ParentTodoID = None, u_CategoryID = None, u_Metadata = None\<rparr>
   = (Fail (BadRequestError ''no fields to update''), db1)"
  using UpdateTodo_no_fields [of db1 env1 "''alice''" "''t1''"]
    UpdateTodo_no_fields [of db1 env1 "''alice''" "''t404''"]
  by simp

text \<open>
  C9.  When the store accepts the statement, \<open>CreateTodo\<close> with a payload that sets only
  the title returns the row it stored: status draft, priority medium, no completion
  timestamp, no description, due date, category or parent, with the identifier and the
  timestamps the store assigned.
\<close>

theorem CreateTodo_title_only:
  assumes "query_err e = None" and "rows_err e = None"
  shows "CreateTodo d e userID
           \<lparr>c_Title = title, c_Description = None, c_Priority = None, c_DueDate = None,
            c_ParentTodoID = None, c_CategoryID = None, c_Metadata = None\<rparr>
         = (let row = \<lparr>t_ID = db_new_id e, t_UserID = userID, t_Title = title,
                        t_Description = None, t_Status = StatusDraft,
                        t_Priority = PriorityMedium, t_DueDate = None, t_CompletedAt = None,
                        t_ParentTodoID = None, t_CategoryID = None, t_Metadata = None,
                        t_SortOrder = 0, t_CreatedAt = db_NOW e, t_UpdatedAt = db_NOW e\<rparr>
            in (Return row, d\<lparr>todos := todos d @ [row]\<rparr>))"
  using assms by (simp add: CreateTodo_unfold created_row_def Let_def)

theorem CreateTodo_title_only_witness:
  "query_err env1 = None \<and> rows_err env1 = None
   \<and> CreateTodo db0 env1 ''bob''
        \<lparr>c_Title = ''Minimal Todo'', c_Description = None, c_Priority = None, c_DueDate = None,
         c_ParentTodoID = None, c_CategoryID = None, c_Metadata = None\<rparr>
      = (Return \<lparr>t_ID = ''t9'', t_UserID = ''bob'', t_Title = ''Minimal Todo'',
                  t_Description = None, t_Status = StatusDraft,
                  t_Priority = PriorityMedium, t_DueDate = None, t_CompletedAt = None,
                  t_ParentTodoID = None, t_CategoryID = None, t_Metadata = None,
                  t_SortOrder = 0, t_CreatedAt = 101, t_UpdatedAt = 101\<rparr>,
         \<lparr>todos = [\<lparr>t_ID = ''t9'', t_UserID = ''bob'', t_Title = ''Minimal Todo'',
                  t_Description = None, t_Status = StatusDraft,
                  t_Priority = PriorityMedium, t_DueDate = None, t_CompletedAt = None,
                  t_ParentTodoID = None, t_CategoryID = None, t_Metadata = None,
                  t_SortOrder = 0, t_CreatedAt = 101, t_UpdatedAt = 101\<rparr>],
          todo_categories = [], todo_comments = []\<rparr>)"
proof -
  have q: "query_err env1 = None" and r: "rows_err env1 = None"
    by (simp_all add: env1_def)
  show ?thesis
    using q r CreateTodo_title_only [OF q r, of db0 "''bob''" "''Minimal Todo''"]
    by (simp add: env1_def db0_def Let_def)
qed

text \<open>
  C10.  A successful \<open>UpdateTodo\<close> returns the stored row of the caller's todo with
  every field whose payload field is absent as it was; the completion timestamp is as it
  was when the payload has no status.  The identifier, the owner, the sort order and the
  creation time are never written.  So a description, due date, parent, category or
  metadata that was present is present afterwards: an absent payload field means
  "unchanged", and a payload field that is present carries a value.
\<close>

theorem UpdateTodo_frame:
  assumes "UpdateTodo d e userID p = (Return r, d')"
  shows "\<exists>t. find_todo d userID (u_ID p) = Some t
           \<and> (u_Title p = None \<longrightarrow> t_Title r = t_Title t)
           \<and> (u_Description p = None \<longrightarrow> t_Description r = t_Description t)
           \<and> (u_Status p = None \<longrightarrow> t_Status r = t_Status t \<and> t_CompletedAt r = t_CompletedAt t)
           \<and> (u_Priority p = None \<longrightarrow> t_Priority r = t_Priority t)
           \<and> (u_DueDate p = None \<longrightarrow> t_DueDate r = t_DueDate t)
           \<and> (u_ParentTodoID p = None \<longrightarrow> t_ParentTodoID r = t_ParentTodoID t)
           \<and> (u_CategoryID p = None \<longrightarrow> t_CategoryID r = t_CategoryID t)
           \<and> (u_Metadata p = None \<longrightarrow> t_Metadata r = t_Metadata t)
           \<and> t_ID r = t_ID t \<and> t_UserID r = t_UserID t
           \<and> t_SortOrder r = t_SortOrder t \<and> t_CreatedAt r = t_CreatedAt t
           \<and> (t_Description t \<noteq> None \<longrightarrow> t_Description r \<noteq> None)
           \<and> (t_DueDate t \<noteq> None \<longrightarrow> t_DueDate r \<noteq> None)
           \<and> (t_ParentTodoID t \<noteq> None \<longrightarrow> t_ParentTodoID r \<noteq> None)
           \<and> (t_CategoryID t \<noteq> None \<longrightarrow> t_CategoryID r \<noteq> None)
           \<and> (t_Metadata t \<noteq> None \<longrightarrow> t_Metadata r \<noteq> None)
           \<and> todos d' = map (\<lambda>x. if t_ID x = u_ID p \<and> t_UserID x = userID
                                    then written_row e userID p x else x) (todos d)"
    (is "\<exists>t. ?frame t")
proof -
  from assms obtain t where t: "find_todo d userID (u_ID p) = Some t"
    and r: "r = written_row e userID p t"
    and d': "todos d' = map (\<lambda>x. if t_ID x = u_ID p \<and> t_UserID x = userID
                                    then written_row e userID p x else x) (todos d)"
    by (auto simp: UpdateTodo_unfold split: if_splits option.splits)
  have "u_Title p = None \<longrightarrow> t_Title r = t_Title t"
    by (simp add: r written_row_Title)
  moreover have "u_Description p = None \<longrightarrow> t_Description r = t_Description t"
    by (simp add: r written_row_Description)
  moreover have "u_Status p = None \<longrightarrow> t_Status r = t_Status t \<and> t_CompletedAt r = t_CompletedAt t"
    by (simp add: r written_row_Status written_row_CompletedAt)
  moreover have "u_Priority p = None \<longrightarrow> t_Priority r = t_Priority t"
    by (simp add: r written_row_Priority)
  moreover have "u_DueDate p = None \<longrightarrow> t_DueDate r = t_DueDate t"
    by (simp add: r written_row_DueDate)
  moreover have "u_ParentTodoID p = None \<longrightarrow> t_ParentTodoID r = t_ParentTodoID t"
    by (simp add: r written_row_ParentTodoID)
  moreover have "u_CategoryID p = None \<longrightarrow> t_CategoryID r = t_CategoryID t"
    by (simp add: r written_row_CategoryID)
  moreover have "u_Metadata p = None \<longrightarrow> t_Metadata r = t_Metadata t"
    by (simp add: r written_row_Metadata)
  moreover have "t_ID r = t_ID t \<and> t_UserID r = t_UserID t
      \<and> t_SortOrder r = t_SortOrder t \<and> t_CreatedAt r = t_CreatedAt t"
    by (simp add: r written_row_frame)
  moreover have "t_Description t \<noteq> None \<longrightarrow> t_Description r \<noteq> None"
    by (simp add: r written_row_Description split: option.splits)
  moreover have "t_DueDate t \<noteq> None \<longrightarrow> t_DueDate r \<noteq> None"
    by (simp add: r written_row_DueDate split: option.splits)
  moreover have "t_ParentTodoID t \<noteq> None \<longrightarrow> t_ParentTodoID r \<noteq> None"
    by (simp add: r written_row_ParentTodoID split: option.splits)
  moreover have "t_CategoryID t \<noteq> None \<longrightarrow> t_CategoryID r \<noteq> None"
    by (simp add: r written_row_CategoryID split: option.splits)
  moreover have "t_Metadata t \<noteq> None \<longrightarrow> t_Metadata r \<noteq> None"
    by (simp add: r written_row_Metadata split: option.splits)
  ultimately have "?frame t" using t d' by simp
  then show ?thesis by (rule exI)
qed

lemma UpdateTodo_title_db1:
  "UpdateTodo db1 env1 ''alice'' ((no_update ''t1'')\<lparr>u_Title := Some ''Updated Todo Title''\<rparr>)
     = (Return (todo1\<lparr>t_Title := ''Updated Todo Title'', t_UpdatedAt := 101\<rparr>),
        db1\<lparr>todos := [todo1\<lparr>t_Title := ''Updated Todo Title'', t_UpdatedAt := 101\<rparr>, todo2]\<rparr>)"
  by (simp add: UpdateTodo_def UpdateTodo_build_def if_present_def no_update_def Let_def
      bind_arg_def append_clause_def
      exec_update_def row_scope_def update_row_def touch_updated_at_def CollectOneRow_def
      db1_def env1_def todo1_def todo2_def)

theorem UpdateTodo_frame_witness:
  "UpdateTodo db1 env1 ''alice'' ((no_update ''t1'')\<lparr>u_Title := Some ''Updated Todo Title''\<rparr>)
     = (Return (todo1\<lparr>t_Title := ''Updated Todo Title'', t_UpdatedAt := 101\<rparr>),
        db1\<lparr>todos := [todo1\<lparr>t_Title := ''Updated Todo Title'', t_UpdatedAt := 101\<rparr>, todo2]\<rparr>)
   \<and> (\<exists>t. find_todo db1 ''alice'' ''t1'' = Some t
          \<and> t_Description (todo1\<lparr>t_Title := ''Updated Todo Title'', t_UpdatedAt := 101\<rparr>)
              = t_Description t
          \<and> t_DueDate (todo1\<lparr>t_Title := ''Updated Todo Title'', t_UpdatedAt := 101\<rparr>) \<noteq> None)"
proof -
  let ?p = "(no_update ''t1'')\<lparr>u_Title := Some ''Updated Todo Title''\<rparr>"
  let ?r = "todo1\<lparr>t_Title := ''Updated Todo Title'', t_UpdatedAt := 101\<rparr>"
  note ev = UpdateTodo_title_db1
  from UpdateTodo_frame [OF ev] obtain t where t: "find_todo db1 ''alice'' (u_ID ?p) = Some t"
    and descr: "u_Description ?p = None \<longrightarrow> t_Description ?r = t_Description t"
    and due: "t_DueDate t \<noteq> None \<longrightarrow> t_DueDate ?r \<noteq> None"
    by (elim exE conjE) (rule that; assumption)
  have "t = todo1"
    using t by (simp add: find_todo_def db1_def todo1_def todo2_def no_update_def)
  with t descr due have "find_todo db1 ''alice'' ''t1'' = Some t
      \<and> t_Description ?r = t_Description t \<and> t_DueDate ?r \<noteq> None"
    by (simp add: no_update_def todo1_def)
  then show ?thesis using ev by blast
qed

text \<open>
  C2.  In every store this layer produces, the row a successful \<open>CreateTodo\<close> or
  \<open>UpdateTodo\<close> returns is a stored row whose completion timestamp is present exactly
  when its status is completed.  An update that sets the status to completed writes the
  current time of the process as the completion timestamp; an update that sets any other
  status writes an absent completion timestamp.
\<close>

theorem completion_timestamp_iff_completed:
  assumes "reachable d"
  shows "(CreateTodo d e userID payload = (Return r, d') \<longrightarrow>
            completion_inv r \<and> r \<in> set (todos d'))
       \<and> (UpdateTodo d e userID upayload = (Return r', d'') \<longrightarrow>
            completion_inv r' \<and> r' \<in> set (todos d'')
          \<and> (u_Status upayload = Some StatusCompleted \<longrightarrow>
                t_Status r' = StatusCompleted \<and> t_CompletedAt r' = Some (time_Now e))
          \<and> (\<forall>s. u_Status upayload = Some s \<and> s \<noteq> StatusCompleted \<longrightarrow>
                t_Status r' = s \<and> t_CompletedAt r' = None))"
proof (intro conjI impI)
  assume "CreateTodo d e userID payload = (Return r, d')"
  then have "r = created_row e userID payload"
    and "todos d' = todos d @ [created_row e userID payload]"
    by (auto simp: CreateTodo_unfold split: option.splits)
  then show "completion_inv r" and "r \<in> set (todos d')"
    by (simp_all add: completion_inv_created)
next
  assume upd: "UpdateTodo d e userID upayload = (Return r', d'')"
  then obtain t where t: "find_todo d userID (u_ID upayload) = Some t"
    and r': "r' = written_row e userID upayload t"
    and d'': "todos d'' = map (\<lambda>x. if t_ID x = u_ID upayload \<and> t_UserID x = userID
                                    then written_row e userID upayload x else x) (todos d)"
    by (auto simp: UpdateTodo_unfold split: if_splits option.splits)
  from t have "t \<in> set (todos d)" by (rule find_todo_in)
  with assms have "completion_inv t" by (rule reachable_completion_inv)
  then show "completion_inv r'" by (simp add: r' completion_inv_written)
  from t have "t_ID t = u_ID upayload \<and> t_UserID t = userID" by (rule find_todo_scope)
  with \<open>t \<in> set (todos d)\<close> show "r' \<in> set (todos d'')"
    unfolding d'' r' by (auto simp: image_iff intro!: bexI [of _ t])
  show "u_Status upayload = Some StatusCompleted \<Longrightarrow> t_Status r' = StatusCompleted"
    by (simp add: r' written_row_Status)
  show "u_Status upayload = Some StatusCompleted \<Longrightarrow> t_CompletedAt r' = Some (time_Now e)"
    by (simp add: r' written_row_CompletedAt)
  show "\<forall>s. u_Status upayload = Some s \<and> s \<noteq> StatusCompleted \<longrightarrow>
          t_Status r' = s \<and> t_CompletedAt r' = None"
    by (simp add: r' written_row_Status written_row_CompletedAt)
qed

lemma CreateTodo_db0:
  "CreateTodo db0 env1 ''bob'' (title_only ''Minimal Todo'') = (Return todo9, db9)"
  by (simp add: CreateTodo_unfold created_row_def title_only_def env1_def db0_def todo9_def
      db9_def)

lemma UpdateTodo_complete_db9:
  "UpdateTodo db9 env1 ''bob'' ((no_update ''t9'')\<lparr>u_Status := Some StatusCompleted\<rparr>)
     = (Return (todo9\<lparr>t_Status := StatusCompleted, t_CompletedAt := Some 100, t_UpdatedAt := 101\<rparr>),
        db9\<lparr>todos := [todo9\<lparr>t_Status := StatusCompleted, t_CompletedAt := Some 100,
                             t_UpdatedAt := 101\<rparr>]\<rparr>)"
  by (simp add: UpdateTodo_def UpdateTodo_build_def if_present_def no_update_def Let_def
      bind_arg_def append_clause_def set_status_def
      exec_update_def row_scope_def update_row_def touch_updated_at_def CollectOneRow_def
      db9_def env1_def todo9_def)

theorem completion_timestamp_iff_completed_witness:
  "reachable db0
   \<and> CreateTodo db0 env1 ''bob'' (title_only ''Minimal Todo'') = (Return todo9, db9)
   \<and> completion_inv todo9
   \<and> reachable db9
   \<and> UpdateTodo db9 env1 ''bob'' ((no_update ''t9'')\<lparr>u_Status := Some StatusCompleted\<rparr>)
       = (Return (todo9\<lparr>t_Status := StatusCompleted, t_CompletedAt := Some 100,
                         t_UpdatedAt := 101\<rparr>),
          db9\<lparr>todos := [todo9\<lparr>t_Status := StatusCompleted, t_CompletedAt := Some 100,
                               t_UpdatedAt := 101\<rparr>]\<rparr>)
   \<and> completion_inv (todo9\<lparr>t_Status := StatusCompleted, t_CompletedAt := Some 100,
                             t_UpdatedAt := 101\<rparr>)
   \<and> t_CompletedAt (todo9\<lparr>t_Status := StatusCompleted, t_CompletedAt := Some 100,
                             t_UpdatedAt := 101\<rparr>) = Some (time_Now env1)"
proof -
  have r0: "reachable db0"
    by (rule reachable_empty) (simp add: db0_def)
  have "reachable (snd (CreateTodo db0 env1 ''bob'' (title_only ''Minimal Todo'')))"
    using r0 by (rule reachable_CreateTodo)
  then have r9: "reachable db9" by (simp add: CreateTodo_db0)
  have st: "u_Status ((no_update ''t9'')\<lparr>u_Status := Some StatusCompleted\<rparr>) = Some StatusCompleted"
    by simp
  from completion_timestamp_iff_completed [OF r0, of env1 "''bob''" "title_only ''Minimal Todo''"
      todo9 db9] CreateTodo_db0
  have c: "completion_inv todo9" by blast
  from completion_timestamp_iff_completed [OF r9, of env1 "''bob''" _ _ _
      "(no_update ''t9'')\<lparr>u_Status := Some StatusCompleted\<rparr>"
      "todo9\<lparr>t_Status := StatusCompleted, t_CompletedAt := Some 100, t_UpdatedAt := 101\<rparr>"]
    UpdateTodo_complete_db9 st
  have u: "completion_inv (todo9\<lparr>t_Status := StatusCompleted, t_CompletedAt := Some 100,
                             t_UpdatedAt := 101\<rparr>)
      \<and> t_CompletedAt (todo9\<lparr>t_Status := StatusCompleted, t_CompletedAt := Some 100,
                             t_UpdatedAt := 101\<rparr>) = Some (time_Now env1)"
    by blast
  from r0 r9 c u CreateTodo_db0 UpdateTodo_complete_db9 show ?thesis by blast
qed

text \<open>
  C4.  A todo of owner A, in a store where identifiers are unique, is out of reach of
  any other owner B: with the store answering, \<open>GetTodoByID\<close>, \<open>CheckTodoExists\<close> and
  \<open>UpdateTodo\<close> (with a field set) fail with the wrapped no-rows error of the driver,
  \<open>DeleteTodo\<close> fails with the not-found error "todo not found", and the store is as
  it was.
\<close>

theorem cross_owner_not_found:
  assumes "t \<in> set (todos d)" and "primary_key d"
    and "t_UserID t = ownerA" and "ownerB \<noteq> ownerA"
    and "query_err e = None" and "rows_err e = None"
    and "u_ID p = t_ID t" and "p \<noteq> no_update (t_ID t)"
  shows "GetTodoByID d e ownerB (t_ID t)
           = Fail (Errorf (''failed to collect row from table:todos for todo_id='' @ t_ID t
                     @ '' user_id='' @ ownerB) ErrNoRows)
       \<and> CheckTodoExists d e ownerB (t_ID t)
           = Fail (Errorf (''failed to collect row from table:todos for todo_id='' @ t_ID t
                     @ '' user_id='' @ ownerB) ErrNoRows)
       \<and> UpdateTodo d e ownerB p
           = (Fail (Errorf ''failed to collect row from table:todos'' ErrNoRows), d)
       \<and> DeleteTodo d e ownerB (t_ID t)
           = (Fail (NotFoundError ''todo not found'' (Some ''TODO_NOT_FOUND'')), d)
       \<and> fails_NotFound (GetTodoByID d e ownerB (t_ID t))
       \<and> fails_NotFound (CheckTodoExists d e ownerB (t_ID t))
       \<and> fails_NotFound (fst (UpdateTodo d e ownerB p))
       \<and> fails_NotFound (fst (DeleteTodo d e ownerB (t_ID t)))"
proof -
  from assms(3,4) have other: "t_UserID t \<noteq> ownerB" by simp
  note none = other_owner_no_row [OF assms(1,2) other]
  have get: "GetTodoByID d e ownerB (t_ID t)
           = Fail (Errorf (''failed to collect row from table:todos for todo_id='' @ t_ID t
                     @ '' user_id='' @ ownerB) ErrNoRows)"
    using assms(5,6) by (simp add: GetTodoByID_def row_scope_by_id none CollectOneRow_def)
  have chk: "CheckTodoExists d e ownerB (t_ID t)
           = Fail (Errorf (''failed to collect row from table:todos for todo_id='' @ t_ID t
                     @ '' user_id='' @ ownerB) ErrNoRows)"
    using assms(5,6) by (simp add: CheckTodoExists_def row_scope_by_id none CollectOneRow_def)
  have "fst (UpdateTodo_build (time_Now e) ownerB p) \<noteq> []"
    using assms(7,8) by (simp add: no_update_iff)
  then have upd: "UpdateTodo d e ownerB p
           = (Fail (Errorf ''failed to collect row from table:todos'' ErrNoRows), d)"
    using assms(5,6,7) find_todo_other_owner [OF assms(1,2) other]
    by (simp add: UpdateTodo_unfold)
  have "filter (\<lambda>x. \<not> (t_ID x = t_ID t \<and> t_UserID x = ownerB)) (todos d) = todos d"
    using none by (simp add: filter_empty_conv filter_id_conv)
  then have del: "DeleteTodo d e ownerB (t_ID t)
           = (Fail (NotFoundError ''todo not found'' (Some ''TODO_NOT_FOUND'')), d)"
    using assms(5) by (simp add: DeleteTodo_def exec_delete_def row_scope_by_id none)
  show ?thesis
    unfolding get chk upd del by simp
qed

theorem cross_owner_not_found_witness:
  "todo1 \<in> set (todos db1) \<and> primary_key db1 \<and> t_UserID todo1 = ''alice'' \<and> ''bob'' \<noteq> ''alice''
   \<and> query_err env1 = None \<and> rows_err env1 = None
   \<and> u_ID ((no_update ''t1'')\<lparr>u_Title := Some ''Updated Todo Title''\<rparr>) = t_ID todo1
   \<and> (no_update ''t1'')\<lparr>u_Title := Some ''Updated Todo Title''\<rparr> \<noteq> no_update (t_ID todo1)
   \<and> GetTodoByID db1 env1 ''bob'' ''t1''
       = Fail (Errorf ''failed to collect row from table:todos for todo_id=t1 user_id=bob''
                 ErrNoRows)
   \<and> CheckTodoExists db1 env1 ''bob'' ''t1''
       = Fail (Errorf ''failed to collect row from table:todos for todo_id=t1 user_id=bob''
                 ErrNoRows)
   \<and> UpdateTodo db1 env1 ''bob'' ((no_update ''t1'')\<lparr>u_Title := Some ''Updated Todo Title''\<rparr>)
       = (Fail (Errorf ''failed to collect row from table:todos'' ErrNoRows), db1)
   \<and> DeleteTodo db1 env1 ''bob'' ''t1''
       = (Fail (NotFoundError ''todo not found'' (Some ''TODO_NOT_FOUND'')), db1)"
proof -
  have h1: "todo1 \<in> set (todos db1)" by (simp add: db1_def)
  have h2: "primary_key db1" by (simp add: primary_key_def db1_def todo1_def todo2_def)
  have h3: "t_UserID todo1 = ''alice''" by (simp add: todo1_def)
  have h4: "''bob'' \<noteq> ''alice''" by simp
  have h5: "query_err env1 = None" and h6: "rows_err env1 = None" by (simp_all add: env1_def)
  have h7: "u_ID ((no_update ''t1'')\<lparr>u_Title := Some ''Updated Todo Title''\<rparr>) = t_ID todo1"
    by (simp add: no_update_def todo1_def)
  have h8: "(no_update ''t1'')\<lparr>u_Title := Some ''Updated Todo Title''\<rparr> \<noteq> no_update (t_ID todo1)"
    by (simp add: no_update_def)
  have id: "t_ID todo1 = ''t1''" by (simp add: todo1_def)
  from cross_owner_not_found [OF h1 h2 h3 h4 h5 h6 h7 h8] h1 h2 h3 h4 h5 h6 h7 h8
  show ?thesis unfolding id by simp
qed

text \<open>
  C8.  Every todo in a page that \<open>GetTodos\<close> returns belongs to the caller and has the
  parent the query asks for: no parent when the query gives none, the given parent
  otherwise.
\<close>

theorem GetTodos_parent_filter:
  assumes "fst (GetTodos d e userID q) = Return resp" and "pt \<in> set (r_Data resp)"
  shows "t_ParentTodoID (p_Todo pt) = q_ParentTodoID q
       \<and> t_UserID (p_Todo pt) = userID
       \<and> p_Todo pt \<in> set (todos d)"
proof -
  from assms have "p_Todo pt \<in> set (GetTodos_matching d e userID q)"
    by (rule GetTodos_Data)
  then show ?thesis
    by (simp add: GetTodos_matching_eq query_matches_def)
qed

theorem GetTodos_parent_filter_witness:
  "fst (GetTodos db1 env1 ''alice'' query1)
     = Return \<lparr>r_Data = [populate db1 [''user_id'' \<mapsto> ArgStr ''alice''] todo1],
                r_Page = 1, r_Limit = 20, r_Total = 1, r_TotalPages = 1\<rparr>
   \<and> t_ParentTodoID todo1 = None
   \<and> fst (GetTodos db1 env1 ''alice'' (query1\<lparr>q_ParentTodoID := Some ''t1''\<rparr>))
     = Return \<lparr>r_Data = [populate db1 [''user_id'' \<mapsto> ArgStr ''alice''] todo2],
                r_Page = 1, r_Limit = 20, r_Total = 1, r_TotalPages = 1\<rparr>
   \<and> t_ParentTodoID todo2 = Some ''t1''"
proof -
  let ?pop = "populate db1 [''user_id'' \<mapsto> ArgStr ''alice'']"
  have r1: "fst (GetTodos db1 env1 ''alice'' query1)
     = Return \<lparr>r_Data = [?pop todo1], r_Page = 1, r_Limit = 20, r_Total = 1, r_TotalPages = 1\<rparr>"
    by (simp add: GetTodos_db1_query1)
  have r2: "fst (GetTodos db1 env1 ''alice'' (query1\<lparr>q_ParentTodoID := Some ''t1''\<rparr>))
     = Return \<lparr>r_Data = [?pop todo2], r_Page = 1, r_Limit = 20, r_Total = 1, r_TotalPages = 1\<rparr>"
    by (simp add: GetTodos_db1_children)
  have "t_ParentTodoID (p_Todo (?pop todo1)) = q_ParentTodoID query1"
    using GetTodos_parent_filter [OF r1, of "?pop todo1"] by simp
  then have p1: "t_ParentTodoID todo1 = None" by (simp add: query1_def)
  have "t_ParentTodoID (p_Todo (?pop todo2)) = q_ParentTodoID (query1\<lparr>q_ParentTodoID := Some ''t1''\<rparr>)"
    using GetTodos_parent_filter [OF r2, of "?pop todo2"] by simp
  then have p2: "t_ParentTodoID todo2 = Some ''t1''" by simp
  from r1 p1 r2 p2 show ?thesis by simp
qed

text \<open>
  C6.  \<open>GetTodos\<close> has no check of the limit.  With limit 0, a page given, the store
  answering and the sort column known, it sends the count and the SELECT and then panics
  with Go's integer divide by zero when it computes the number of pages.
\<close>

theorem GetTodos_limit_zero:
  assumes "q_Limit q = Some 0" and "q_Page q = Some page" and "store_ok e"
    and "order_column (fst (GetTodos_order q)) = Some key"
  shows "GetTodos d e userID q = (Panic divide_by_zero, GetTodos_sent userID q 0 page)
       \<and> length (GetTodos_sent userID q 0 page) = 2"
  using GetTodos_zero_panic [OF assms] by (simp add: GetTodos_sent_def)

theorem GetTodos_limit_zero_counterexample:
  "GetTodos db1 env1 ''alice'' (query1\<lparr>q_Limit := Some 0\<rparr>)
     = (Panic ''runtime error: integer divide by zero'',
        [(GetTodos_countStmt ''alice'' (query1\<lparr>q_Limit := Some 0\<rparr>),
          snd (GetTodos_where ''alice'' (query1\<lparr>q_Limit := Some 0\<rparr>))),
         (GetTodos_stmt ''alice'' (query1\<lparr>q_Limit := Some 0\<rparr>),
          GetTodos_page_args ''alice'' (query1\<lparr>q_Limit := Some 0\<rparr>) 0 1)])"
proof -
  let ?q = "query1\<lparr>q_Limit := Some 0\<rparr>"
  have h1: "q_Limit ?q = Some 0" by simp
  have h2: "q_Page ?q = Some 1" by (simp add: query1_def)
  have h4: "order_column (fst (GetTodos_order ?q)) = Some (\<lambda>t. key_time (Some (t_CreatedAt t)))"
    by (simp add: query1_def GetTodos_order_def order_default)
  show ?thesis
    unfolding GetTodos_zero_panic [OF h1 h2 store_ok_env1 h4]
    by (simp add: GetTodos_sent_def divide_by_zero_def)
qed

theorem GetTodos_limit_zero_witness:
  "q_Limit (query1\<lparr>q_Limit := Some 0\<rparr>) = Some 0
   \<and> q_Page (query1\<lparr>q_Limit := Some 0\<rparr>) = Some 1
   \<and> store_ok env1
   \<and> order_column (fst (GetTodos_order (query1\<lparr>q_Limit := Some 0\<rparr>)))
       = Some (\<lambda>t. key_time (Some (t_CreatedAt t)))
   \<and> GetTodos db1 env1 ''alice'' (query1\<lparr>q_Limit := Some 0\<rparr>)
       = (Panic divide_by_zero, GetTodos_sent ''alice'' (query1\<lparr>q_Limit := Some 0\<rparr>) 0 1)"
proof -
  let ?q = "query1\<lparr>q_Limit := Some 0\<rparr>"
  have h1: "q_Limit ?q = Some 0" by simp
  have h2: "q_Page ?q = Some 1" by (simp add: query1_def)
  have h4: "order_column (fst (GetTodos_order ?q)) = Some (\<lambda>t. key_time (Some (t_CreatedAt t)))"
    by (simp add: query1_def GetTodos_order_def order_default)
  from GetTodos_limit_zero [OF h1 h2 store_ok_env1 h4, of db1 "''alice''"] h1 h2 store_ok_env1 h4
  show ?thesis by blast
qed

text \<open>
  C1.  \<open>GetTodos\<close> has no check of the sort field.  With page and limit given and the
  count answered, the SELECT it sends to the store carries the given sort text after
  \<open>ORDER BY t.\<close>, whatever the text is.  The allow-list is the one of the API contract;
  each of its six values names a column the store orders by.
\<close>

theorem GetTodos_sort_unchecked:
  assumes "count_err e = None" and "q_Limit q = Some limit" and "q_Page q = Some page"
    and "q_Sort q = Some s"
  shows "snd (GetTodos d e userID q) =
           [(''SELECT COUNT(*) FROM todos t'' @ where_sql (fst (GetTodos_where userID q)),
             snd (GetTodos_where userID q)),
            (GetTodos_select @ where_sql (fst (GetTodos_where userID q))
               @ '' GROUP BY t.id, c.id'' @ '' ORDER BY t.'' @ s
               @ (if q_Order q = Some ''desc'' then '' DESC'' else '' ASC'')
               @ '' LIMIT @limit OFFSET @offset'',
             GetTodos_page_args userID q limit page)]
       \<and> (s \<in> set sort_allow_list \<longrightarrow> order_column s \<noteq> None)"
  using assms
  by (simp add: GetTodos_statements GetTodos_sent_def GetTodos_countStmt_def GetTodos_stmt_def
      GetTodos_order_by_def allow_list_columns)

theorem GetTodos_sort_unchecked_counterexample:
  "''id'' \<notin> set sort_allow_list
   \<and> fst (GetTodos db1 env1 ''alice'' (query1\<lparr>q_Sort := Some ''id''\<rparr>))
       = Return \<lparr>r_Data = [populate db1 [''user_id'' \<mapsto> ArgStr ''alice''] todo1],
                  r_Page = 1, r_Limit = 20, r_Total = 1, r_TotalPages = 1\<rparr>
   \<and> ''title; DROP TABLE todos --'' \<notin> set sort_allow_list
   \<and> map fst (snd (GetTodos db1 env1 ''alice''
                      (query1\<lparr>q_Sort := Some ''title; DROP TABLE todos --''\<rparr>)))
       = [''SELECT COUNT(*) FROM todos t WHERE t.user_id = @user_id AND t.parent_todo_id IS NULL'',
          GetTodos_select @ '' WHERE t.user_id = @user_id AND t.parent_todo_id IS NULL''
            @ '' GROUP BY t.id, c.id ORDER BY t.title; DROP TABLE todos -- ASC''
            @ '' LIMIT @limit OFFSET @offset'']"
proof -
  let ?q = "query1\<lparr>q_Sort := Some ''title; DROP TABLE todos --''\<rparr>"
  have w: "where_sql (fst (GetTodos_where ''alice'' ?q))
     = '' WHERE t.user_id = @user_id AND t.parent_todo_id IS NULL''"
    by (rule where_root_only) (simp_all add: query1_def)
  have sent: "snd (GetTodos db1 env1 ''alice'' ?q) = GetTodos_sent ''alice'' ?q 20 1"
    by (rule GetTodos_statements) (simp_all add: env1_def query1_def)
  have "map fst (snd (GetTodos db1 env1 ''alice'' ?q))
       = [''SELECT COUNT(*) FROM todos t WHERE t.user_id = @user_id AND t.parent_todo_id IS NULL'',
          GetTodos_select @ '' WHERE t.user_id = @user_id AND t.parent_todo_id IS NULL''
            @ '' GROUP BY t.id, c.id ORDER BY t.title; DROP TABLE todos -- ASC''
            @ '' LIMIT @limit OFFSET @offset'']"
    unfolding sent GetTodos_sent_def GetTodos_countStmt_def GetTodos_stmt_def w
    by (simp add: GetTodos_order_by_def query1_def)
  then show ?thesis
    by (simp add: GetTodos_db1_sort_id sort_allow_list_def)
qed

theorem GetTodos_sort_unchecked_witness:
  "count_err env1 = None
   \<and> q_Limit (query1\<lparr>q_Sort := Some ''title''\<rparr>) = Some 20
   \<and> q_Page (query1\<lparr>q_Sort := Some ''title''\<rparr>) = Some 1
   \<and> q_Sort (query1\<lparr>q_Sort := Some ''title''\<rparr>) = Some ''title''
   \<and> ''title'' \<in> set sort_allow_list
   \<and> map fst (snd (GetTodos db1 env1 ''alice'' (query1\<lparr>q_Sort := Some ''title''\<rparr>)))
       = [''SELECT COUNT(*) FROM todos t WHERE t.user_id = @user_id AND t.parent_todo_id IS NULL'',
          GetTodos_select @ '' WHERE t.user_id = @user_id AND t.parent_todo_id IS NULL''
            @ '' GROUP BY t.id, c.id ORDER BY t.title ASC LIMIT @limit OFFSET @offset'']
   \<and> order_column ''title'' \<noteq> None"
proof -
  let ?q = "query1\<lparr>q_Sort := Some ''title''\<rparr>"
  have h1: "count_err env1 = None" by (simp add: env1_def)
  have h2: "q_Limit ?q = Some 20" and h3: "q_Page ?q = Some 1"
    by (simp_all add: query1_def)
  have h4: "q_Sort ?q = Some ''title''" by simp
  have h5: "''title'' \<in> set sort_allow_list" by (simp add: sort_allow_list_def)
  have w: "where_sql (fst (GetTodos_where ''alice'' ?q))
     = '' WHERE t.user_id = @user_id AND t.parent_todo_id IS NULL''"
    by (rule where_root_only) (simp_all add: query1_def)
  have o: "q_Order ?q = None" by (simp add: query1_def)
  from GetTodos_sort_unchecked [OF h1 h2 h3 h4, of db1 "''alice''"] h5
  have "map fst (snd (GetTodos db1 env1 ''alice'' ?q))
       = [''SELECT COUNT(*) FROM todos t WHERE t.user_id = @user_id AND t.parent_todo_id IS NULL'',
          GetTodos_select @ '' WHERE t.user_id = @user_id AND t.parent_todo_id IS NULL''
            @ '' GROUP BY t.id, c.id ORDER BY t.title ASC LIMIT @limit OFFSET @offset'']"
    and "order_column ''title'' \<noteq> None"
    by (simp_all add: w o)
  with h1 h2 h3 h4 h5 show ?thesis by blast
qed

text \<open>
  C5.  For a query with page and limit at least 1, the store answering and the sort column
  known, and as long as the offset (page - 1) * limit and total + limit - 1 stay
  below 2^63 (Go's \<open>int\<close> does not wrap): \<open>GetTodos\<close> binds the offset
  (page - 1) * limit and the limit to the SELECT, returns that page of the ordered
  matching rows, reports as total the number of rows matching the same conditions (the count
  statement has the same WHERE clause and no limit or offset), and reports the ceiling of
  total / limit as the number of pages.
\<close>

theorem GetTodos_pagination:
  assumes "store_ok e" and "q_Page q = Some page" and "q_Limit q = Some limit"
    and "1 \<le> sint page" and "1 \<le> sint limit"
    and "(sint page - 1) * sint limit < 2 ^ 63"
    and "int (length (GetTodos_matching d e userID q)) + sint limit - 1 < 2 ^ 63"
    and "order_column (fst (GetTodos_order q)) = Some key"
  shows "\<exists>resp.
      GetTodos d e userID q =
        (Return resp,
         [(''SELECT COUNT(*) FROM todos t'' @ where_sql (fst (GetTodos_where userID q)),
           snd (GetTodos_where userID q)),
          (GetTodos_select @ where_sql (fst (GetTodos_where userID q))
             @ '' GROUP BY t.id, c.id'' @ GetTodos_order_by q @ '' LIMIT @limit OFFSET @offset'',
           GetTodos_page_args userID q limit page)])
    \<and> snd (GetTodos_where userID q) ''limit'' = None
    \<and> snd (GetTodos_where userID q) ''offset'' = None
    \<and> GetTodos_page_args userID q limit page ''limit'' = Some (ArgInt limit)
    \<and> GetTodos_page_args userID q limit page ''offset'' = Some (ArgInt ((page - 1) * limit))
    \<and> sint ((page - 1) * limit) = (sint page - 1) * sint limit
    \<and> map p_Todo (r_Data resp)
        = take (nat (sint limit)) (drop (nat ((sint page - 1) * sint limit))
            (order_rows key (snd (GetTodos_order q)) (GetTodos_matching d e userID q)))
    \<and> r_Page resp = page \<and> r_Limit resp = limit
    \<and> sint (r_Total resp) = int (length (GetTodos_matching d e userID q))
    \<and> sint (r_TotalPages resp)
        = (int (length (GetTodos_matching d e userID q)) + sint limit - 1) div sint limit
    \<and> (sint (r_TotalPages resp) - 1) * sint limit < int (length (GetTodos_matching d e userID q))
    \<and> int (length (GetTodos_matching d e userID q)) \<le> sint (r_TotalPages resp) * sint limit"
proof -
  let ?M = "GetTodos_matching d e userID q"
  let ?n = "int (length ?M)"
  have off: "sint ((page - 1) * limit) = (sint page - 1) * sint limit"
    using assms(4,5,6) by (rule sint_offset)
  have off0: "0 \<le> sint ((page - 1) * limit)"
    unfolding off using assms(4,5) by simp
  have nz: "limit \<noteq> 0" using assms(5) by auto
  have l0: "0 \<le> sint limit" using assms(5) by simp
  have "?n < 2 ^ 63" using assms(5,7) by simp
  then have tot: "sint (of_nat (length ?M) :: go_int) = ?n" by (rule sint_total)
  have tp: "sint (go_div (of_nat (length ?M) + limit - 1) limit) = (?n + sint limit - 1) div sint limit"
    using assms(5,7) by (rule sint_total_pages)
  have ceil: "((?n + sint limit - 1) div sint limit - 1) * sint limit < ?n
      \<and> ?n \<le> (?n + sint limit - 1) div sint limit * sint limit"
    using assms(5) by (intro ceiling_div) simp_all
  show ?thesis
    unfolding GetTodos_ok [OF assms(1,3,2) nz l0 off0 assms(8)]
    using off tot tp ceil
    by (simp add: GetTodos_sent_def GetTodos_countStmt_def GetTodos_stmt_def
        GetTodos_where_args page_args_offset)
qed

theorem GetTodos_pagination_counterexample:
  "1 \<le> sint (4611686018427387905 :: go_int) \<and> 1 \<le> sint (4 :: go_int)
   \<and> (sint (4611686018427387905 :: go_int) - 1) * sint (4 :: go_int) = 18446744073709551616
   \<and> GetTodos db1 env1 ''alice'' (query1\<lparr>q_Page := Some 4611686018427387905, q_Limit := Some 4\<rparr>)
       = (Return \<lparr>r_Data = [populate db1 [''user_id'' \<mapsto> ArgStr ''alice''] todo1],
                   r_Page = 4611686018427387905, r_Limit = 4, r_Total = 1, r_TotalPages = 1\<rparr>,
          GetTodos_sent ''alice''
            (query1\<lparr>q_Page := Some 4611686018427387905, q_Limit := Some 4\<rparr>)
            4 4611686018427387905)
   \<and> GetTodos_page_args ''alice''
        (query1\<lparr>q_Page := Some 4611686018427387905, q_Limit := Some 4\<rparr>)
        4 4611686018427387905 ''offset'' = Some (ArgInt 0)
   \<and> 1 \<le> sint (1 :: go_int) \<and> 1 \<le> sint (9223372036854775807 :: go_int)
   \<and> GetTodos db2 env1 ''alice'' (query1\<lparr>q_Limit := Some 9223372036854775807\<rparr>)
       = (Return \<lparr>r_Data = [populate db2 [''user_id'' \<mapsto> ArgStr ''alice''] todo3,
                             populate db2 [''user_id'' \<mapsto> ArgStr ''alice''] todo1],
                   r_Page = 1, r_Limit = 9223372036854775807, r_Total = 2,
                   r_TotalPages = - 1\<rparr>,
          GetTodos_sent ''alice'' (query1\<lparr>q_Limit := Some 9223372036854775807\<rparr>)
            9223372036854775807 1)"
  by (simp add: GetTodos_db1_wrapped_offset GetTodos_db2_max_limit page_args_offset)

theorem GetTodos_pagination_witness:
  "store_ok env1
   \<and> q_Page (query1\<lparr>q_Page := Some 2, q_Limit := Some 1\<rparr>) = Some 2
   \<and> q_Limit (query1\<lparr>q_Page := Some 2, q_Limit := Some 1\<rparr>) = Some 1
   \<and> 1 \<le> sint (2 :: go_int) \<and> 1 \<le> sint (1 :: go_int)
   \<and> (sint (2 :: go_int) - 1) * sint (1 :: go_int) < 2 ^ 63
   \<and> int (length (GetTodos_matching db2 env1 ''alice''
                     (query1\<lparr>q_Page := Some 2, q_Limit := Some 1\<rparr>)))
         + sint (1 :: go_int) - 1 < 2 ^ 63
   \<and> order_column (fst (GetTodos_order (query1\<lparr>q_Page := Some 2, q_Limit := Some 1\<rparr>)))
        = Some (\<lambda>t. key_time (Some (t_CreatedAt t)))
   \<and> (\<exists>resp. fst (GetTodos db2 env1 ''alice'' (query1\<lparr>q_Page := Some 2, q_Limit := Some 1\<rparr>))
                 = Return resp
          \<and> map p_Todo (r_Data resp) = [todo1]
          \<and> sint (r_Total resp) = 2 \<and> sint (r_TotalPages resp) = 2)"
proof -
  let ?q = "query1\<lparr>q_Page := Some 2, q_Limit := Some 1\<rparr>"
  let ?key = "\<lambda>t. key_time (Some (t_CreatedAt t))"
  have m: "GetTodos_matching db2 env1 ''alice'' ?q = [todo1, todo3]"
    by (rule matching_db2_roots) (simp_all add: query1_def)
  have h2: "q_Page ?q = Some 2" and h3: "q_Limit ?q = Some 1" by simp_all
  have h4: "1 \<le> sint (2 :: go_int)" and h5: "1 \<le> sint (1 :: go_int)" by simp_all
  have h6: "(sint (2 :: go_int) - 1) * sint (1 :: go_int) < 2 ^ 63" by simp
  have h7: "int (length (GetTodos_matching db2 env1 ''alice'' ?q)) + sint (1 :: go_int) - 1 < 2 ^ 63"
    by (simp add: m)
  have ord: "GetTodos_order ?q = (''created_at'', True)"
    by (simp add: query1_def GetTodos_order_def)
  have h8: "order_column (fst (GetTodos_order ?q)) = Some ?key"
    by (simp add: ord order_default)
  have s: "key_time (Some (t_CreatedAt todo1)) \<le> key_time (Some (t_CreatedAt todo3))"
    by (simp add: key_time_def todo1_def todo3_def less_eq_prod_def)
  from GetTodos_pagination [OF store_ok_env1 h2 h3 h4 h5 h6 h7 h8]
  obtain resp where r: "fst (GetTodos db2 env1 ''alice'' ?q) = Return resp"
    and data: "map p_Todo (r_Data resp)
        = take (nat (sint (1 :: go_int))) (drop (nat ((sint (2 :: go_int) - 1) * sint (1 :: go_int)))
            (order_rows ?key (snd (GetTodos_order ?q)) (GetTodos_matching db2 env1 ''alice'' ?q)))"
    and total: "sint (r_Total resp) = int (length (GetTodos_matching db2 env1 ''alice'' ?q))"
    and pages: "sint (r_TotalPages resp)
        = (int (length (GetTodos_matching db2 env1 ''alice'' ?q)) + sint (1 :: go_int) - 1)
            div sint (1 :: go_int)"
    by (elim exE conjE) (rule that; simp)
  have "map p_Todo (r_Data resp) = [todo1]"
    unfolding data m ord by (simp add: order_rows_def s)
  moreover have "sint (r_Total resp) = 2" unfolding total m by simp
  moreover have "sint (r_TotalPages resp) = 2" unfolding pages m by simp
  ultimately have ex: "\<exists>resp. fst (GetTodos db2 env1 ''alice'' ?q) = Return resp
          \<and> map p_Todo (r_Data resp) = [todo1]
          \<and> sint (r_Total resp) = 2 \<and> sint (r_TotalPages resp) = 2"
    using r by (intro exI [of _ resp]) simp
  show ?thesis
    by (intro conjI; fact store_ok_env1 h2 h3 h4 h5 h6 h7 h8 ex)
qed




end
